theory Spec2Isabelle
  imports Complex_Main
begin

section \<open>Values shared by the JavaScript and the SQL side\<close>

text \<open>
  A JavaScript (and JSON) value as far as the plan catalogue, an override and a result
  object hold one: a number, a boolean, a string or \<open>null\<close>. Numbers are the integers
  (every number of the catalogue and every INTEGER column is one). The JavaScript value
  \<open>undefined\<close> is the \<open>None\<close> of a \<open>jsval option\<close>.
\<close>

datatype jsval = JNum int | JBool bool | JStr string | JNull

text \<open>
  An object is a map from its own property names to values. Reading a name that it does
  not own goes on to \<open>Object.prototype\<close>, whose members every object literal inherits:
  \<open>Object_prototype_names\<close> lists them. Where the name that is read is data (the
  \<open>subscription_tier\<close> column), the read is modelled with the inherited members; where it
  is a limit key that the calling code writes out (\<open>limitType\<close>), the key is taken to
  name none of them.
\<close>

type_synonym jsobj = "string \<rightharpoonup> jsval"

definition Object_prototype_names :: "string list" where
  "Object_prototype_names =
     [''constructor'', ''__defineGetter__'', ''__defineSetter__'', ''hasOwnProperty'',
      ''__lookupGetter__'', ''__lookupSetter__'', ''isPrototypeOf'', ''propertyIsEnumerable'',
      ''toString'', ''valueOf'', ''__proto__'', ''toLocaleString'']"

text \<open>
  A number as arithmetic produces it: finite, or one of the three non-finite values.
  Negative zero is not told from zero.
\<close>

datatype jsnum = Finite rat | NaN | Infinity | NegInfinity

type_synonym uuid = string
type_synonym timestamptz = int

section \<open>The plan catalogue (\<open>PLAN_LIMITS\<close>)\<close>

record catalog =
  free :: jsobj
  subscription :: "string \<rightharpoonup> jsobj"
  appsumo :: "int \<rightharpoonup> jsobj"

definition PLAN_LIMITS :: catalog where
  "PLAN_LIMITS = \<lparr>
     free = map_of [
       (''name'', JStr ''Free''),
       (''projects'', JNum 1),
       (''automations'', JNum 3),
       (''customers'', JNum 100),
       (''emails_monthly'', JNum 500),
       (''sms_monthly'', JNum 0),
       (''ai_analyses'', JNum 10),
       (''team_members'', JNum 1),
       (''api_access'', JBool False),
       (''webhooks'', JBool False),
       (''priority_support'', JBool False)],
     subscription = map_of [
       (''growth'', map_of [
         (''name'', JStr ''Growth''),
         (''price_monthly'', JNum 39),
         (''price_annual'', JNum 31),
         (''projects'', JNum 5),
         (''automations'', JNum 15),
         (''customers'', JNum 2000),
         (''emails_monthly'', JNum 5000),
         (''sms_monthly'', JNum 0),
         (''ai_analyses'', JNum 50),
         (''team_members'', JNum 3),
         (''api_access'', JBool False),
         (''webhooks'', JBool False),
         (''priority_support'', JBool False)]),
       (''business'', map_of [
         (''name'', JStr ''Business''),
         (''price_monthly'', JNum 99),
         (''price_annual'', JNum 79),
         (''projects'', JNum 15),
         (''automations'', JNum 50),
         (''customers'', JNum 10000),
         (''emails_monthly'', JNum 25000),
         (''sms_monthly'', JNum 0),
         (''ai_analyses'', JNum 200),
         (''team_members'', JNum 10),
         (''api_access'', JBool True),
         (''webhooks'', JBool True),
         (''priority_support'', JBool True)]),
       (''enterprise'', map_of [
         (''name'', JStr ''Enterprise''),
         (''price_monthly'', JNum 249),
         (''price_annual'', JNum 199),
         (''projects'', JNum (- 1)),
         (''automations'', JNum (- 1)),
         (''customers'', JNum 50000),
         (''emails_monthly'', JNum 100000),
         (''sms_monthly'', JNum 1000),
         (''ai_analyses'', JNum (- 1)),
         (''team_members'', JNum (- 1)),
         (''api_access'', JBool True),
         (''webhooks'', JBool True),
         (''priority_support'', JBool True),
         (''dedicated_support'', JBool True),
         (''sla'', JBool True)])],
     appsumo = map_of [
       (1, map_of [
         (''name'', JStr ''Lifetime Tier 1''),
         (''badge'', JStr ''AppSumo''),
         (''projects'', JNum 3),
         (''automations'', JNum 10),
         (''customers'', JNum 1000),
         (''emails_monthly'', JNum 3000),
         (''sms_monthly'', JNum 0),
         (''ai_analyses'', JNum 30),
         (''team_members'', JNum 2),
         (''api_access'', JBool False),
         (''webhooks'', JBool False),
         (''priority_support'', JBool False)]),
       (2, map_of [
         (''name'', JStr ''Lifetime Tier 2''),
         (''badge'', JStr ''AppSumo''),
         (''projects'', JNum 10),
         (''automations'', JNum 30),
         (''customers'', JNum 5000),
         (''emails_monthly'', JNum 15000),
         (''sms_monthly'', JNum 0),
         (''ai_analyses'', JNum 100),
         (''team_members'', JNum 5),
         (''api_access'', JBool True),
         (''webhooks'', JBool False),
         (''priority_support'', JBool True)]),
       (3, map_of [
         (''name'', JStr ''Lifetime Tier 3''),
         (''badge'', JStr ''AppSumo''),
         (''projects'', JNum 25),
         (''automations'', JNum (- 1)),
         (''customers'', JNum 15000),
         (''emails_monthly'', JNum 50000),
         (''sms_monthly'', JNum 0),
         (''ai_analyses'', JNum 300),
         (''team_members'', JNum 10),
         (''api_access'', JBool True),
         (''webhooks'', JBool True),
         (''priority_support'', JBool True),
         (''white_label'', JBool True)])]
   \<rparr>"

section \<open>The organization row\<close>

text \<open>
  The columns of \<open>organizations\<close> that the migration adds, with the primary key
  (\<open>oid\<close>, the column \<open>id\<close>). A column without a default is nullable and is an
  \<open>option\<close>; \<open>appsumo_codes\<close> is one too, as \<open>redeem_appsumo_code\<close> reads it through
  \<open>COALESCE\<close>. The dashboard passes the same row to \<open>getOrgLimits\<close> and \<open>checkLimit\<close>;
  there \<open>plan_limits_override\<close> is an object or \<open>null\<close>.
\<close>

record organization =
  oid :: uuid
  plan_type :: string
  appsumo_tier :: "int option"
  appsumo_codes :: "string list option"
  subscription_tier :: "string option"
  stripe_customer_id :: "string option"
  plan_limits_override :: "jsobj option"
  plan_changed_at :: "timestamptz option"

section \<open>Limit resolution (\<open>getPlanLimits\<close>, \<open>getOrgLimits\<close>)\<close>

text \<open>\<open>a || b\<close> where \<open>a\<close> is an object or \<open>undefined\<close>: an object is truthy.\<close>

definition js_or :: "'a option \<Rightarrow> 'a option \<Rightarrow> 'a option" where
  "js_or a b = (case a of Some x \<Rightarrow> Some x | None \<Rightarrow> b)"

text \<open>
  What a read of the catalogue yields when it yields something: one of the catalogue's
  limit objects, or the member of that name inherited from \<open>Object.prototype\<close> (a builtin
  function, or for \<open>__proto__\<close> the prototype object). An inherited member is truthy and
  is no set of limits.
\<close>

datatype plan_value = Limits jsobj | Inherited string

text \<open>
  \<open>PLAN_LIMITS.appsumo[org.appsumo_tier]\<close>: the catalogue has the keys 1, 2 and 3; a
  \<open>null\<close> tier reads the property \<open>"null"\<close>, which it has not, and the decimal text of
  an integer names no inherited member.
\<close>

definition appsumo_entry :: "int option \<Rightarrow> plan_value option" where
  "appsumo_entry t =
     (case t of None \<Rightarrow> None | Some n \<Rightarrow> map_option Limits (appsumo PLAN_LIMITS n))"

text \<open>
  \<open>PLAN_LIMITS.subscription[org.subscription_tier]\<close>: the tier is any text (the column
  has no CHECK), so the read can reach an inherited member.
\<close>

definition subscription_entry :: "string option \<Rightarrow> plan_value option" where
  "subscription_entry t =
     (case t of
        None \<Rightarrow> None
      | Some n \<Rightarrow>
          (case subscription PLAN_LIMITS n of
             Some l \<Rightarrow> Some (Limits l)
           | None \<Rightarrow> if n \<in> set Object_prototype_names then Some (Inherited n) else None))"

definition getPlanLimits :: "organization option \<Rightarrow> plan_value option" where
  "getPlanLimits org =
     (case org of
        None \<Rightarrow> Some (Limits (free PLAN_LIMITS))
      | Some r \<Rightarrow>
          if plan_type r = ''appsumo_lifetime'' then
            js_or (appsumo_entry (appsumo_tier r)) (map_option Limits (appsumo PLAN_LIMITS 1))
          else if plan_type r = ''subscription'' then
            js_or (subscription_entry (subscription_tier r))
              (map_option Limits (subscription PLAN_LIMITS ''growth''))
          else Some (Limits (free PLAN_LIMITS)))"

text \<open>
  \<open>{ ...a, ...b }\<close>: a new object with the own enumerable properties of \<open>a\<close>, then those
  of \<open>b\<close>. \<open>undefined\<close> has none, and neither has an inherited member.
\<close>

definition spread :: "plan_value option \<Rightarrow> jsobj \<Rightarrow> jsobj" where
  "spread a b = (case a of Some (Limits x) \<Rightarrow> x | _ \<Rightarrow> Map.empty) ++ b"

definition getOrgLimits :: "organization option \<Rightarrow> plan_value option" where
  "getOrgLimits org =
     (case org of
        None \<Rightarrow> Some (Limits (free PLAN_LIMITS))
      | Some r \<Rightarrow>
          (case plan_limits_override r of
             Some ov \<Rightarrow> Some (Limits (spread (getPlanLimits org) ov))
           | None \<Rightarrow> getPlanLimits org))"

subsection \<open>The same resolution over an object store\<close>

text \<open>
  \<open>getOrgLimits\<close> returns a reference: without an override it is the catalogue's own
  object, with one it is the object that the spread has just created. The store holds the
  module's \<open>PLAN_LIMITS\<close> singleton and the objects allocated since.
\<close>

datatype ref =
    Catalog_free
  | Catalog_subscription string
  | Catalog_appsumo int
  | Object_prototype string
  | Allocated nat

record heap =
  singleton :: catalog
  allocated :: "jsobj list"

definition deref :: "heap \<Rightarrow> ref \<Rightarrow> plan_value option" where
  "deref h p =
     (case p of
        Catalog_free \<Rightarrow> Some (Limits (free (singleton h)))
      | Catalog_subscription k \<Rightarrow> map_option Limits (subscription (singleton h) k)
      | Catalog_appsumo n \<Rightarrow> map_option Limits (appsumo (singleton h) n)
      | Object_prototype k \<Rightarrow> Some (Inherited k)
      | Allocated i \<Rightarrow>
          if i < length (allocated h) then Some (Limits (allocated h ! i)) else None)"

definition getPlanLimits_ref :: "heap \<Rightarrow> organization option \<Rightarrow> ref" where
  "getPlanLimits_ref h org =
     (case org of
        None \<Rightarrow> Catalog_free
      | Some r \<Rightarrow>
          if plan_type r = ''appsumo_lifetime'' then
            (case appsumo_tier r of
               None \<Rightarrow> Catalog_appsumo 1
             | Some n \<Rightarrow> if appsumo (singleton h) n \<noteq> None then Catalog_appsumo n
                         else Catalog_appsumo 1)
          else if plan_type r = ''subscription'' then
            (case subscription_tier r of
               None \<Rightarrow> Catalog_subscription ''growth''
             | Some n \<Rightarrow> if subscription (singleton h) n \<noteq> None then Catalog_subscription n
                         else if n \<in> set Object_prototype_names then Object_prototype n
                         else Catalog_subscription ''growth'')
          else Catalog_free)"

definition getOrgLimits_ref :: "heap \<Rightarrow> organization option \<Rightarrow> ref \<times> heap" where
  "getOrgLimits_ref h org =
     (case org of
        None \<Rightarrow> (Catalog_free, h)
      | Some r \<Rightarrow>
          (case plan_limits_override r of
             Some ov \<Rightarrow>
               (Allocated (length (allocated h)),
                h\<lparr>allocated := allocated h @ [spread (deref h (getPlanLimits_ref h org)) ov]\<rparr>)
           | None \<Rightarrow> (getPlanLimits_ref h org, h)))"

section \<open>Quota check (\<open>getUsagePercent\<close>, \<open>checkLimit\<close>)\<close>

datatype js_error = TypeError

text \<open>
  The conversion of a string to a number: blanks at both ends are dropped; the empty string
  is 0; \<open>Infinity\<close> with an optional sign; a binary, octal or hexadecimal integer after
  \<open>0b\<close>, \<open>0o\<close>, \<open>0x\<close>; a decimal literal with an optional sign, fraction and exponent;
  anything else is \<open>NaN\<close>. The value is the exact one (the engine rounds it to a double),
  and the blanks are the ASCII ones.
\<close>

definition is_blank :: "char \<Rightarrow> bool" where
  "is_blank c \<longleftrightarrow> c \<in> set [CHR 0x09, CHR 0x0A, CHR 0x0B, CHR 0x0C, CHR 0x0D, CHR 0x20]"

definition trim :: "string \<Rightarrow> string" where
  "trim s = rev (dropWhile is_blank (rev (dropWhile is_blank s)))"

definition digit_of :: "nat \<Rightarrow> char \<Rightarrow> nat option" where
  "digit_of radix c =
     (case map_of [
        (CHR ''0'', 0), (CHR ''1'', 1), (CHR ''2'', 2), (CHR ''3'', 3), (CHR ''4'', 4),
        (CHR ''5'', 5), (CHR ''6'', 6), (CHR ''7'', 7), (CHR ''8'', 8), (CHR ''9'', 9),
        (CHR ''a'', 10), (CHR ''b'', 11), (CHR ''c'', 12), (CHR ''d'', 13), (CHR ''e'', 14),
        (CHR ''f'', 15), (CHR ''A'', 10), (CHR ''B'', 11), (CHR ''C'', 12), (CHR ''D'', 13),
        (CHR ''E'', 14), (CHR ''F'', 15)] c of
        None \<Rightarrow> None
      | Some d \<Rightarrow> if d < radix then Some d else None)"

fun digits_value :: "nat \<Rightarrow> nat \<Rightarrow> string \<Rightarrow> nat option" where
  "digits_value radix acc [] = Some acc"
| "digits_value radix acc (c # cs) =
     (case digit_of radix c of
        None \<Rightarrow> None
      | Some d \<Rightarrow> digits_value radix (acc * radix + d) cs)"

text \<open>One digit or more in the radix.\<close>

definition unsigned_integer :: "nat \<Rightarrow> string \<Rightarrow> nat option" where
  "unsigned_integer radix s = (if s = [] then None else digits_value radix 0 s)"

definition signed_integer :: "string \<Rightarrow> int option" where
  "signed_integer s =
     (case s of
        [] \<Rightarrow> None
      | c # cs \<Rightarrow>
          if c = CHR ''+'' then map_option int (unsigned_integer 10 cs)
          else if c = CHR ''-'' then map_option (\<lambda>n. - int n) (unsigned_integer 10 cs)
          else map_option int (unsigned_integer 10 s))"

text \<open>Digits, digits with a point and optional digits after it, or a point and digits.\<close>

definition decimal_mantissa :: "string \<Rightarrow> rat option" where
  "decimal_mantissa s =
     (let ip = takeWhile (\<lambda>c. c \<noteq> CHR ''.'') s;
          rest = dropWhile (\<lambda>c. c \<noteq> CHR ''.'') s in
      case rest of
        [] \<Rightarrow> map_option of_nat (unsigned_integer 10 ip)
      | _ # fp \<Rightarrow>
          if ip = [] then
            map_option (\<lambda>f. of_nat f / 10 ^ length fp) (unsigned_integer 10 fp)
          else
            (case unsigned_integer 10 ip of
               None \<Rightarrow> None
             | Some i \<Rightarrow>
                 if fp = [] then Some (of_nat i)
                 else map_option (\<lambda>f. of_nat i + of_nat f / 10 ^ length fp)
                        (unsigned_integer 10 fp)))"

definition unsigned_decimal :: "string \<Rightarrow> rat option" where
  "unsigned_decimal s =
     (let is_e = (\<lambda>c. c = CHR ''e'' \<or> c = CHR ''E'');
          m = takeWhile (\<lambda>c. \<not> is_e c) s;
          rest = dropWhile (\<lambda>c. \<not> is_e c) s in
      case decimal_mantissa m of
        None \<Rightarrow> None
      | Some v \<Rightarrow>
          (case rest of
             [] \<Rightarrow> Some v
           | _ # e \<Rightarrow>
               (case signed_integer e of
                  None \<Rightarrow> None
                | Some k \<Rightarrow> Some (if k \<ge> 0 then v * 10 ^ nat k else v / 10 ^ nat (- k)))))"

definition StringToNumber :: "string \<Rightarrow> jsnum" where
  "StringToNumber s =
     (let t = trim s;
          from_nat = (\<lambda>n. case n of None \<Rightarrow> NaN | Some k \<Rightarrow> Finite (of_nat k)) in
      if t = [] then Finite 0
      else if t = ''Infinity'' \<or> t = ''+Infinity'' then Infinity
      else if t = ''-Infinity'' then NegInfinity
      else if take 2 t = ''0x'' \<or> take 2 t = ''0X'' then from_nat (unsigned_integer 16 (drop 2 t))
      else if take 2 t = ''0o'' \<or> take 2 t = ''0O'' then from_nat (unsigned_integer 8 (drop 2 t))
      else if take 2 t = ''0b'' \<or> take 2 t = ''0B'' then from_nat (unsigned_integer 2 (drop 2 t))
      else if hd t = CHR ''+'' then
        (case unsigned_decimal (tl t) of None \<Rightarrow> NaN | Some v \<Rightarrow> Finite v)
      else if hd t = CHR ''-'' then
        (case unsigned_decimal (tl t) of None \<Rightarrow> NaN | Some v \<Rightarrow> Finite (- v))
      else (case unsigned_decimal t of None \<Rightarrow> NaN | Some v \<Rightarrow> Finite v))"

text \<open>\<open>ToNumber\<close> of a limit value.\<close>

definition ToNumber :: "jsval option \<Rightarrow> jsnum" where
  "ToNumber v =
     (case v of
        None \<Rightarrow> NaN
      | Some (JNum n) \<Rightarrow> Finite (of_int n)
      | Some (JBool b) \<Rightarrow> Finite (if b then 1 else 0)
      | Some (JStr s) \<Rightarrow> StringToNumber s
      | Some JNull \<Rightarrow> Finite 0)"

text \<open>\<open>a > b\<close>, \<open>a >= k\<close> and \<open>a < k\<close> on numbers: a comparison with \<open>NaN\<close> is false.\<close>

definition js_gt :: "int \<Rightarrow> jsnum \<Rightarrow> bool" where
  "js_gt a b = (case b of Finite n \<Rightarrow> of_int a > n | NaN \<Rightarrow> False | Infinity \<Rightarrow> False
                | NegInfinity \<Rightarrow> True)"

definition js_ge :: "jsnum \<Rightarrow> int \<Rightarrow> bool" where
  "js_ge a k = (case a of Finite n \<Rightarrow> n \<ge> of_int k | NaN \<Rightarrow> False | Infinity \<Rightarrow> True
                | NegInfinity \<Rightarrow> False)"

definition js_lt :: "jsnum \<Rightarrow> int \<Rightarrow> bool" where
  "js_lt a k = (case a of Finite n \<Rightarrow> n < of_int k | NaN \<Rightarrow> False | Infinity \<Rightarrow> False
                | NegInfinity \<Rightarrow> True)"

text \<open>
  \<open>Math.round\<close>: the nearest integer, a tie going up. The code applies it to the IEEE
  double \<open>(used / limit) * 100\<close>, the model to the exact quotient. The two percentages can
  differ by one where the exact value is a tie and the double falls just below it (29 of
  200: 14 in the code, 15 here). Whether the percentage reaches 80 and whether it stays
  below 100 does not differ for integers of the size of an INTEGER column: the doubles of
  159/200 and 199/200 give 79.5 and 99.5 exactly, and any other quotient is farther from
  these two ties than the rounding error of a double unless the limit exceeds 10^13.
\<close>

definition Math_round :: "rat \<Rightarrow> int" where
  "Math_round x = \<lfloor>x + 1 / 2\<rfloor>"

definition getUsagePercent :: "int \<Rightarrow> jsval option \<Rightarrow> jsnum" where
  "getUsagePercent used limit =
     (if limit = Some (JNum (- 1)) then Finite 0
      else if limit = Some (JNum 0) then (if used > 0 then Finite 100 else Finite 0)
      else (case ToNumber limit of
              Finite l \<Rightarrow>
                if l = 0 then (if used > 0 then Infinity else if used < 0 then NegInfinity else NaN)
                else Finite (of_int (Math_round ((of_int used / l) * 100)))
            | NaN \<Rightarrow> NaN
            | _ \<Rightarrow> Finite 0))"

definition formatLimitName :: "string \<Rightarrow> string" where
  "formatLimitName limitType =
     (case map_of [
        (''projects'', ''projects''),
        (''automations'', ''automations''),
        (''customers'', ''customers''),
        (''emails_monthly'', ''monthly emails''),
        (''sms_monthly'', ''monthly SMS''),
        (''ai_analyses'', ''AI analyses''),
        (''team_members'', ''team members'')] limitType of
        Some n \<Rightarrow> n
      | None \<Rightarrow> limitType)"

text \<open>
  \<open>formatLimit\<close>: \<open>Unlimited\<close> for -1, a dash for 0, otherwise \<open>value.toLocaleString()\<close>,
  whose text depends on the locale and is kept as the value itself. On \<open>undefined\<close> and
  \<open>null\<close> the method call throws.
\<close>

datatype limit_text = Unlimited | Dash | LocaleString jsval

definition formatLimit :: "jsval option \<Rightarrow> js_error + limit_text" where
  "formatLimit v =
     (if v = Some (JNum (- 1)) then Inr Unlimited
      else if v = Some (JNum 0) then Inr Dash
      else (case v of
              None \<Rightarrow> Inl TypeError
            | Some JNull \<Rightarrow> Inl TypeError
            | Some x \<Rightarrow> Inr (LocaleString x)))"

text \<open>
  The messages, by template and the values put into it: the three "You've reached your
  <name> limit (<limit>)." texts of \<open>getLimitMessage\<close>, which end in a different upgrade
  path for an AppSumo plan, a subscription and any other plan, and the
  "You're at <percent>% of your <name> limit." text of the warning.
\<close>

datatype message =
    Reached_appsumo string limit_text
  | Reached_subscription string limit_text
  | Reached_other string limit_text
  | Proximity jsnum string

definition getLimitMessage :: "string \<Rightarrow> jsval option \<Rightarrow> string \<Rightarrow> js_error + message" where
  "getLimitMessage limitType limit planType =
     (let name = formatLimitName limitType in
      case formatLimit limit of
        Inl e \<Rightarrow> Inl e
      | Inr text \<Rightarrow>
          if planType = ''appsumo_lifetime'' then Inr (Reached_appsumo name text)
          else if planType = ''subscription'' then Inr (Reached_subscription name text)
          else Inr (Reached_other name text))"

text \<open>
  The result object of \<open>checkLimit\<close>; a key that the object does not have reads as
  \<open>undefined\<close>, which is \<open>None\<close>.
\<close>

record check_result =
  allowed :: bool
  warning :: "bool option"
  message :: "message option"
  upgradeRequired :: "bool option"
  current :: "int option"
  limit :: "jsval option"

text \<open>
  The usage snapshot: each key it has holds a number or \<open>null\<close> (the INTEGER columns of
  \<open>usage_tracking\<close>). \<open>usage[limitType] || 0\<close> is 0 for \<open>undefined\<close>, \<open>null\<close> and 0.
\<close>

type_synonym usage = "string \<rightharpoonup> int option"

definition usage_or_zero :: "usage \<Rightarrow> string \<Rightarrow> int" where
  "usage_or_zero u k =
     (case u k of
        None \<Rightarrow> 0
      | Some None \<Rightarrow> 0
      | Some (Some n) \<Rightarrow> if n = 0 then 0 else n)"

text \<open>
  \<open>limits[limitType]\<close>: the limit key read from what \<open>getOrgLimits\<close> returned. The
  builtins that an inherited member can be have no property of a limit key's name.
\<close>

definition limit_of :: "plan_value \<Rightarrow> string \<Rightarrow> jsval option" where
  "limit_of limits limitType =
     (case limits of Limits l \<Rightarrow> l limitType | Inherited m \<Rightarrow> None)"

text \<open>
  \<open>checkLimit(org, usage, limitType, increment = 1)\<close>: an omitted increment is \<open>None\<close>.
  Reading \<open>org.plan_type\<close> of a \<open>null\<close> organization throws.
\<close>

definition checkLimit ::
    "organization option \<Rightarrow> usage \<Rightarrow> string \<Rightarrow> int option \<Rightarrow> js_error + check_result" where
  "checkLimit org usage limitType increment_arg =
     (let increment = (case increment_arg of None \<Rightarrow> 1 | Some i \<Rightarrow> i) in
      case getOrgLimits org of
        None \<Rightarrow> Inl TypeError
      | Some limits \<Rightarrow>
          let limit = limit_of limits limitType in
          if limit = Some (JNum (- 1)) then
            Inr \<lparr>allowed = True, warning = None, message = None, upgradeRequired = None,
                 current = None, limit = None\<rparr>
          else
            let currentUsage = usage_or_zero usage limitType;
                newUsage = currentUsage + increment in
            if js_gt newUsage (ToNumber limit) then
              (case org of
                 None \<Rightarrow> Inl TypeError
               | Some r \<Rightarrow>
                   (case getLimitMessage limitType limit (plan_type r) of
                      Inl e \<Rightarrow> Inl e
                    | Inr m \<Rightarrow>
                        Inr \<lparr>allowed = False, warning = None, message = Some m,
                             upgradeRequired = Some True, current = Some currentUsage,
                             limit = limit\<rparr>))
            else
              let percent = getUsagePercent newUsage limit in
              if js_ge percent 80 \<and> js_lt percent 100 then
                Inr \<lparr>allowed = True, warning = Some True,
                     message = Some (Proximity percent (formatLimitName limitType)),
                     upgradeRequired = None, current = Some newUsage, limit = limit\<rparr>
              else
                Inr \<lparr>allowed = True, warning = None, message = None, upgradeRequired = None,
                     current = Some newUsage, limit = limit\<rparr>)"

section \<open>The tables of the migration\<close>

text \<open>
  A table is the list of its rows. \<open>SELECT ... INTO\<close> takes the first row that matches,
  \<open>UPDATE ... WHERE\<close> changes every row that matches. A column with a default is not
  nullable here. An exception ends the function and rolls its writes back: the functions
  return \<open>Inl\<close> and the caller keeps the store it had.
\<close>

datatype sql_error = integer_out_of_range | foreign_key_violation

record date =
  year :: int
  month :: nat
  day :: nat

record appsumo_code =
  cid :: uuid
  code :: string
  tier :: int
  is_redeemed :: bool
  redeemed_by_org_id :: "uuid option"
  redeemed_at :: "timestamptz option"
  code_created_at :: timestamptz
  code_notes :: "string option"

text \<open>The row of \<open>usage_tracking\<close>, without its generated \<open>id\<close>.\<close>

record usage_tracking =
  organization_id :: uuid
  period_start :: date
  period_end :: date
  emails_sent :: int
  sms_sent :: int
  ai_analyses_used :: int
  projects_count :: int
  automations_count :: int
  customers_count :: int
  created_at :: timestamptz
  updated_at :: timestamptz

record store =
  tbl_organizations :: "organization list"
  tbl_appsumo_codes :: "appsumo_code list"
  tbl_usage_tracking :: "usage_tracking list"

text \<open>INTEGER addition: a sum outside the 32-bit range raises.\<close>

definition int4_add :: "int \<Rightarrow> int \<Rightarrow> sql_error + int" where
  "int4_add a b =
     (if - 2147483648 \<le> a + b \<and> a + b \<le> 2147483647 then Inr (a + b)
      else Inl integer_out_of_range)"

text \<open>The decimal text of an integer, as \<open>||\<close> appends it to a string.\<close>

fun digits :: "nat \<Rightarrow> string" where
  "digits n = (if n < 10 then [''0123456789'' ! n]
               else digits (n div 10) @ [''0123456789'' ! (n mod 10)])"

declare digits.simps [simp del]

definition text_of_int :: "int \<Rightarrow> string" where
  "text_of_int i = (if i < 0 then CHR ''-'' # digits (nat (- i)) else digits (nat i))"

section \<open>The usage period (\<open>get_current_usage\<close>, \<open>increment_usage\<close>)\<close>

definition is_leap_year :: "int \<Rightarrow> bool" where
  "is_leap_year y = (y mod 4 = 0 \<and> (y mod 100 \<noteq> 0 \<or> y mod 400 = 0))"

definition days_in_month :: "int \<Rightarrow> nat \<Rightarrow> nat" where
  "days_in_month y m =
     (if m = 2 then (if is_leap_year y then 29 else 28)
      else if m = 4 \<or> m = 6 \<or> m = 9 \<or> m = 11 then 30 else 31)"

text \<open>\<open>DATE_TRUNC('month', CURRENT_DATE)\<close> and that plus one month minus one day.\<close>

definition month_start :: "date \<Rightarrow> date" where
  "month_start d = d\<lparr>day := 1\<rparr>"

definition month_end :: "date \<Rightarrow> date" where
  "month_end d = d\<lparr>day := days_in_month (year d) (month d)\<rparr>"

text \<open>
  \<open>today\<close> is \<open>CURRENT_DATE\<close> and \<open>now\<close> is \<open>NOW()\<close>. The INSERT gives every counter its
  default 0; its \<open>organization_id\<close> references \<open>organizations(id)\<close>.
\<close>

definition get_current_usage ::
    "store \<Rightarrow> date \<Rightarrow> timestamptz \<Rightarrow> uuid \<Rightarrow> sql_error + (usage_tracking \<times> store)" where
  "get_current_usage s today now org_id =
     (let current_period_start = month_start today;
          current_period_end = month_end today in
      case find (\<lambda>u. organization_id u = org_id \<and> period_start u = current_period_start)
             (tbl_usage_tracking s) of
        Some usage_record \<Rightarrow> Inr (usage_record, s)
      | None \<Rightarrow>
          if org_id \<in> set (map oid (tbl_organizations s)) then
            let usage_record =
                  \<lparr>organization_id = org_id, period_start = current_period_start,
                   period_end = current_period_end, emails_sent = 0, sms_sent = 0,
                   ai_analyses_used = 0, projects_count = 0, automations_count = 0,
                   customers_count = 0, created_at = now, updated_at = now\<rparr>
            in Inr (usage_record,
                    s\<lparr>tbl_usage_tracking := tbl_usage_tracking s @ [usage_record]\<rparr>)
          else Inl foreign_key_violation)"

text \<open>An UPDATE whose SET clause can raise: the rows that match, each through \<open>f\<close>.\<close>

fun update_where ::
    "('r \<Rightarrow> bool) \<Rightarrow> ('r \<Rightarrow> sql_error + 'r) \<Rightarrow> 'r list \<Rightarrow> sql_error + 'r list" where
  "update_where p f [] = Inr []"
| "update_where p f (r # rs) =
     (case (if p r then f r else Inr r) of
        Inl e \<Rightarrow> Inl e
      | Inr r' \<Rightarrow> (case update_where p f rs of Inl e \<Rightarrow> Inl e | Inr rs' \<Rightarrow> Inr (r' # rs')))"

definition increment_usage ::
    "store \<Rightarrow> date \<Rightarrow> timestamptz \<Rightarrow> uuid \<Rightarrow> string \<Rightarrow> int \<Rightarrow> sql_error + (bool \<times> store)" where
  "increment_usage s today now org_id usage_type amount =
     (let current_period_start = month_start today in
      case get_current_usage s today now org_id of
        Inl e \<Rightarrow> Inl e
      | Inr (_, s1) \<Rightarrow>
          let this_period = (\<lambda>u. organization_id u = org_id \<and> period_start u = current_period_start) in
          if usage_type = ''emails'' then
            (case update_where this_period
                    (\<lambda>u. case int4_add (emails_sent u) amount of
                            Inl e \<Rightarrow> Inl e
                          | Inr n \<Rightarrow> Inr (u\<lparr>emails_sent := n, updated_at := now\<rparr>))
                    (tbl_usage_tracking s1) of
               Inl e \<Rightarrow> Inl e
             | Inr rows \<Rightarrow> Inr (True, s1\<lparr>tbl_usage_tracking := rows\<rparr>))
          else if usage_type = ''sms'' then
            (case update_where this_period
                    (\<lambda>u. case int4_add (sms_sent u) amount of
                            Inl e \<Rightarrow> Inl e
                          | Inr n \<Rightarrow> Inr (u\<lparr>sms_sent := n, updated_at := now\<rparr>))
                    (tbl_usage_tracking s1) of
               Inl e \<Rightarrow> Inl e
             | Inr rows \<Rightarrow> Inr (True, s1\<lparr>tbl_usage_tracking := rows\<rparr>))
          else if usage_type = ''ai_analyses'' then
            (case update_where this_period
                    (\<lambda>u. case int4_add (ai_analyses_used u) amount of
                            Inl e \<Rightarrow> Inl e
                          | Inr n \<Rightarrow> Inr (u\<lparr>ai_analyses_used := n, updated_at := now\<rparr>))
                    (tbl_usage_tracking s1) of
               Inl e \<Rightarrow> Inl e
             | Inr rows \<Rightarrow> Inr (True, s1\<lparr>tbl_usage_tracking := rows\<rparr>))
          else Inr (True, s1))"

section \<open>Code redemption (\<open>redeem_appsumo_code\<close>, \<open>check_appsumo_code\<close>)\<close>

text \<open>A \<open>jsonb_build_object\<close> result: its keys and values in the order written.\<close>

type_synonym jsonb = "(string \<times> jsval) list"

definition redeem_appsumo_code ::
    "store \<Rightarrow> timestamptz \<Rightarrow> uuid \<Rightarrow> string \<Rightarrow> sql_error + (jsonb \<times> store)" where
  "redeem_appsumo_code s now org_id code_to_redeem =
     (case find (\<lambda>c. code c = code_to_redeem) (tbl_appsumo_codes s) of
        None \<Rightarrow> Inr ([(''success'', JBool False), (''error'', JStr ''Invalid code'')], s)
      | Some code_record \<Rightarrow>
          if is_redeemed code_record then
            Inr ([(''success'', JBool False), (''error'', JStr ''Code already redeemed'')], s)
          else
            let org_row = find (\<lambda>r. oid r = org_id) (tbl_organizations s);
                current_tier = (case org_row of None \<Rightarrow> None | Some r \<Rightarrow> appsumo_tier r);
                current_codes = (case org_row of None \<Rightarrow> None | Some r \<Rightarrow> appsumo_codes r)
            in
            (case (case current_tier of
                    None \<Rightarrow> Inr (tier code_record)
                  | Some t \<Rightarrow>
                      (case int4_add t (tier code_record) of
                         Inl e \<Rightarrow> Inl e
                       | Inr n \<Rightarrow> Inr (min n 3))) of
              Inl e \<Rightarrow> Inl e
            | Inr new_tier \<Rightarrow>
                if org_row = None then Inl foreign_key_violation
                else
                  let codes' =
                        map (\<lambda>c. if cid c = cid code_record
                                  then c\<lparr>is_redeemed := True,
                                         redeemed_by_org_id := Some org_id,
                                         redeemed_at := Some now\<rparr>
                                  else c)
                          (tbl_appsumo_codes s);
                      orgs' =
                        map (\<lambda>r. if oid r = org_id
                                  then r\<lparr>plan_type := ''appsumo_lifetime'',
                                         appsumo_tier := Some new_tier,
                                         appsumo_codes :=
                                           Some (case_option [] (\<lambda>cs. cs) current_codes
                                                 @ [code_to_redeem]),
                                         plan_changed_at := Some now\<rparr>
                                  else r)
                          (tbl_organizations s)
                  in
                  Inr ([(''success'', JBool True),
                        (''tier'', JNum new_tier),
                        (''message'',
                         JStr (''Code redeemed successfully! Your plan has been upgraded to Tier ''
                               @ text_of_int new_tier))],
                       s\<lparr>tbl_appsumo_codes := codes', tbl_organizations := orgs'\<rparr>)))"

text \<open>
  \<open>check_appsumo_code\<close> has no UPDATE and no INSERT; like the functions above it
  returns the store it leaves.
\<close>

definition check_appsumo_code :: "store \<Rightarrow> string \<Rightarrow> jsonb \<times> store" where
  "check_appsumo_code s code_to_check =
     (case find (\<lambda>c. code c = code_to_check) (tbl_appsumo_codes s) of
        None \<Rightarrow> ([(''valid'', JBool False), (''error'', JStr ''Code not found'')], s)
      | Some code_record \<Rightarrow>
          if is_redeemed code_record then
            ([(''valid'', JBool False), (''error'', JStr ''Code already redeemed'')], s)
          else ([(''valid'', JBool True), (''tier'', JNum (tier code_record))], s))"

section \<open>The specification's notions\<close>

text \<open>
  The percentage as the specification words it: \<open>round(projected / limit * 100)\<close>, with a
  limit of 0 giving 100 when the usage is positive and 0 otherwise.
\<close>

definition percent_of :: "int \<Rightarrow> int \<Rightarrow> int" where
  "percent_of projected L =
     (if L = 0 then (if projected > 0 then 100 else 0)
      else Math_round ((of_int projected / of_int L) * 100))"

text \<open>The stacking rule: the code's tier on no tier, otherwise the sum capped at 3.\<close>

definition stacked_tier :: "int option \<Rightarrow> int \<Rightarrow> int" where
  "stacked_tier current_tier code_tier =
     (case current_tier of None \<Rightarrow> code_tier | Some t \<Rightarrow> min (t + code_tier) 3)"

text \<open>
  The invariant of the organization state as the specification states it: exactly one of
  \<open>subscription_tier\<close> and \<open>appsumo_tier\<close> is non-null, and each only under its own
  \<open>plan_type\<close>.
\<close>

definition plan_invariant :: "organization \<Rightarrow> bool" where
  "plan_invariant r \<longleftrightarrow>
     ((subscription_tier r \<noteq> None) \<noteq> (appsumo_tier r \<noteq> None)) \<and>
     (subscription_tier r \<noteq> None \<longrightarrow> plan_type r = ''subscription'') \<and>
     (appsumo_tier r \<noteq> None \<longrightarrow> plan_type r = ''appsumo_lifetime'')"

section \<open>Example data\<close>

definition free_org :: organization where
  "free_org = \<lparr>oid = ''org-1'', plan_type = ''free'', appsumo_tier = None,
     appsumo_codes = Some [], subscription_tier = None, stripe_customer_id = None,
     plan_limits_override = None, plan_changed_at = None\<rparr>"

definition growth_org :: organization where
  "growth_org = \<lparr>oid = ''org-2'', plan_type = ''subscription'', appsumo_tier = None,
     appsumo_codes = Some [], subscription_tier = Some ''growth'',
     stripe_customer_id = Some ''cus_1'', plan_limits_override = None,
     plan_changed_at = None\<rparr>"

definition tier1_org :: organization where
  "tier1_org = \<lparr>oid = ''org-3'', plan_type = ''appsumo_lifetime'', appsumo_tier = Some 1,
     appsumo_codes = Some [''AUTOMATA-TEST-T1-002''], subscription_tier = None,
     stripe_customer_id = None, plan_limits_override = None, plan_changed_at = Some 5\<rparr>"

definition tier2_org :: organization where
  "tier2_org = \<lparr>oid = ''org-4'', plan_type = ''appsumo_lifetime'', appsumo_tier = Some 2,
     appsumo_codes = Some [''AUTOMATA-TEST-T2-002''], subscription_tier = None,
     stripe_customer_id = None,
     plan_limits_override = Some (map_of [(''projects'', JNum 50)]),
     plan_changed_at = Some 6\<rparr>"

text \<open>Rows whose tier is missing or of no catalogue entry, and a plan type of no case.\<close>

definition untiered_appsumo_org :: organization where
  "untiered_appsumo_org = free_org\<lparr>plan_type := ''appsumo_lifetime''\<rparr>"

definition tier7_org :: organization where
  "tier7_org = tier1_org\<lparr>appsumo_tier := Some 7\<rparr>"

definition untiered_subscription_org :: organization where
  "untiered_subscription_org = free_org\<lparr>plan_type := ''subscription''\<rparr>"

definition trial_org :: organization where
  "trial_org = free_org\<lparr>plan_type := ''trial''\<rparr>"

text \<open>A subscription whose tier names a member that every object inherits.\<close>

definition constructor_org :: organization where
  "constructor_org = growth_org\<lparr>subscription_tier := Some ''constructor''\<rparr>"

text \<open>
  The six sample codes of the migration; two of them are redeemed here, by the
  organizations that list them.
\<close>

definition sample_codes :: "appsumo_code list" where
  "sample_codes = [
     \<lparr>cid = ''code-1'', code = ''AUTOMATA-TEST-T1-001'', tier = 1, is_redeemed = False,
      redeemed_by_org_id = None, redeemed_at = None, code_created_at = 1,
      code_notes = Some ''Test Tier 1 code''\<rparr>,
     \<lparr>cid = ''code-2'', code = ''AUTOMATA-TEST-T1-002'', tier = 1, is_redeemed = True,
      redeemed_by_org_id = Some ''org-3'', redeemed_at = Some 5, code_created_at = 1,
      code_notes = Some ''Test Tier 1 code''\<rparr>,
     \<lparr>cid = ''code-3'', code = ''AUTOMATA-TEST-T2-001'', tier = 2, is_redeemed = False,
      redeemed_by_org_id = None, redeemed_at = None, code_created_at = 1,
      code_notes = Some ''Test Tier 2 code''\<rparr>,
     \<lparr>cid = ''code-4'', code = ''AUTOMATA-TEST-T2-002'', tier = 2, is_redeemed = True,
      redeemed_by_org_id = Some ''org-4'', redeemed_at = Some 6, code_created_at = 1,
      code_notes = Some ''Test Tier 2 code''\<rparr>,
     \<lparr>cid = ''code-5'', code = ''AUTOMATA-TEST-T3-001'', tier = 3, is_redeemed = False,
      redeemed_by_org_id = None, redeemed_at = None, code_created_at = 1,
      code_notes = Some ''Test Tier 3 code''\<rparr>,
     \<lparr>cid = ''code-6'', code = ''AUTOMATA-TEST-T3-002'', tier = 3, is_redeemed = False,
      redeemed_by_org_id = None, redeemed_at = None, code_created_at = 1,
      code_notes = Some ''Test Tier 3 code''\<rparr>]"

definition sample_store :: store where
  "sample_store = \<lparr>tbl_organizations = [free_org, growth_org, tier1_org, tier2_org],
     tbl_appsumo_codes = sample_codes, tbl_usage_tracking = []\<rparr>"

text \<open>\<open>growth_org\<close> after it has redeemed the first sample code at time 9.\<close>

definition growth_org_redeemed :: organization where
  "growth_org_redeemed = growth_org\<lparr>plan_type := ''appsumo_lifetime'', appsumo_tier := Some 1,
     appsumo_codes := Some [''AUTOMATA-TEST-T1-001''], plan_changed_at := Some 9\<rparr>"

section \<open>Limit resolution: fallbacks\<close>

lemma appsumo_keys: "appsumo PLAN_LIMITS t \<noteq> None \<longleftrightarrow> t = 1 \<or> t = 2 \<or> t = 3"
  by (simp add: PLAN_LIMITS_def)

lemma subscription_keys:
  "subscription PLAN_LIMITS k \<noteq> None \<longleftrightarrow> k = ''growth'' \<or> k = ''business'' \<or> k = ''enterprise''"
  by (simp add: PLAN_LIMITS_def)

lemma inherited_not_own:
  "m \<in> set Object_prototype_names \<Longrightarrow> subscription PLAN_LIMITS m = None"
  using subscription_keys [of m] by (auto simp: Object_prototype_names_def)

lemma getPlanLimits_total: "getPlanLimits org \<noteq> None"
  by (auto simp: getPlanLimits_def js_or_def PLAN_LIMITS_def split: option.splits)

lemma getOrgLimits_override:
  "getOrgLimits (Some r) =
     (case plan_limits_override r of
        None \<Rightarrow> getPlanLimits (Some r)
      | Some ov \<Rightarrow> Some (Limits (spread (getPlanLimits (Some r)) ov)))"
  by (simp add: getOrgLimits_def split: option.splits)

text \<open>
  The defaults that resolution does reach: a null organization gets the free limits; an
  AppSumo plan whose tier is null or not 1, 2 or 3 gets the tier-1 limits; a subscription
  whose tier is null gets the growth limits; every other plan type gets the free limits.
\<close>

lemma getPlanLimits_fallbacks:
  "getPlanLimits None = Some (Limits (free PLAN_LIMITS)) \<and>
   getOrgLimits None = Some (Limits (free PLAN_LIMITS)) \<and>
   (plan_type r = ''appsumo_lifetime'' \<and> appsumo_tier r \<notin> {Some 1, Some 2, Some 3} \<longrightarrow>
      getPlanLimits (Some r) = map_option Limits (appsumo PLAN_LIMITS 1)) \<and>
   (plan_type r = ''subscription'' \<and> subscription_tier r = None \<longrightarrow>
      getPlanLimits (Some r) = map_option Limits (subscription PLAN_LIMITS ''growth'')) \<and>
   (plan_type r \<noteq> ''appsumo_lifetime'' \<and> plan_type r \<noteq> ''subscription'' \<longrightarrow>
      getPlanLimits (Some r) = Some (Limits (free PLAN_LIMITS))) \<and>
   appsumo PLAN_LIMITS 1 \<noteq> None \<and> subscription PLAN_LIMITS ''growth'' \<noteq> None"
proof (intro conjI impI)
  show "getPlanLimits None = Some (Limits (free PLAN_LIMITS))"
    by (simp add: getPlanLimits_def)
  show "getOrgLimits None = Some (Limits (free PLAN_LIMITS))"
    by (simp add: getOrgLimits_def)
  show "getPlanLimits (Some r) = map_option Limits (appsumo PLAN_LIMITS 1)"
    if "plan_type r = ''appsumo_lifetime'' \<and> appsumo_tier r \<notin> {Some 1, Some 2, Some 3}"
  proof (cases "appsumo_tier r")
    case None
    with that show ?thesis
      by (simp add: getPlanLimits_def js_or_def appsumo_entry_def)
  next
    case (Some t)
    with that have "appsumo PLAN_LIMITS t = None"
      using appsumo_keys [of t] by auto
    with that Some show ?thesis
      by (simp add: getPlanLimits_def js_or_def appsumo_entry_def)
  qed
  show "getPlanLimits (Some r) = map_option Limits (subscription PLAN_LIMITS ''growth'')"
    if "plan_type r = ''subscription'' \<and> subscription_tier r = None"
    using that by (simp add: getPlanLimits_def js_or_def subscription_entry_def)
  show "getPlanLimits (Some r) = Some (Limits (free PLAN_LIMITS))"
    if "plan_type r \<noteq> ''appsumo_lifetime'' \<and> plan_type r \<noteq> ''subscription''"
    using that by (simp add: getPlanLimits_def)
  show "appsumo PLAN_LIMITS 1 \<noteq> None"
    by (simp add: PLAN_LIMITS_def)
  show "subscription PLAN_LIMITS ''growth'' \<noteq> None"
    by (simp add: PLAN_LIMITS_def)
qed

lemma getPlanLimits_fallback_examples:
  "getPlanLimits (Some untiered_appsumo_org) = map_option Limits (appsumo PLAN_LIMITS 1) \<and>
   getPlanLimits (Some tier7_org) = map_option Limits (appsumo PLAN_LIMITS 1) \<and>
   getPlanLimits (Some untiered_subscription_org) =
     map_option Limits (subscription PLAN_LIMITS ''growth'') \<and>
   getPlanLimits (Some trial_org) = Some (Limits (free PLAN_LIMITS)) \<and>
   getPlanLimits (Some free_org) = Some (Limits (free PLAN_LIMITS))"
  using getPlanLimits_fallbacks [of untiered_appsumo_org]
    getPlanLimits_fallbacks [of tier7_org]
    getPlanLimits_fallbacks [of untiered_subscription_org]
    getPlanLimits_fallbacks [of trial_org]
    getPlanLimits_fallbacks [of free_org]
  by (simp add: untiered_appsumo_org_def tier7_org_def untiered_subscription_org_def
      trial_org_def free_org_def tier1_org_def)

text \<open>
  Resolution returns something that is no set of limits exactly for a subscription whose
  tier names a member inherited from \<open>Object.prototype\<close>.
\<close>

lemma getPlanLimits_inherited_iff:
  "(\<exists>m. getPlanLimits (Some r) = Some (Inherited m)) \<longleftrightarrow>
   plan_type r = ''subscription'' \<and>
   (\<exists>m \<in> set Object_prototype_names. subscription_tier r = Some m)"
proof (cases "plan_type r = ''subscription''")
  case False
  then show ?thesis
    by (auto simp: getPlanLimits_def js_or_def appsumo_entry_def split: option.splits)
next
  case True
  have growth: "\<exists>l. subscription PLAN_LIMITS ''growth'' = Some l"
    using subscription_keys [of "''growth''"] by auto
  show ?thesis
  proof (cases "subscription_tier r")
    case None
    with True growth show ?thesis
      by (auto simp: getPlanLimits_def js_or_def subscription_entry_def)
  next
    case (Some n)
    show ?thesis
    proof (cases "n \<in> set Object_prototype_names")
      case yes: True
      with True Some inherited_not_own [OF yes] show ?thesis
        by (auto simp: getPlanLimits_def js_or_def subscription_entry_def)
    next
      case no: False
      with True Some growth show ?thesis
        by (auto simp: getPlanLimits_def js_or_def subscription_entry_def
            split: option.splits)
    qed
  qed
qed

lemma constructor_org_fields:
  "plan_type constructor_org = ''subscription''"
  "subscription_tier constructor_org = Some ''constructor''"
  "plan_limits_override constructor_org = None"
  by (simp_all add: constructor_org_def growth_org_def)

text \<open>
  Claim C7 fails on the code: for a subscription whose \<open>subscription_tier\<close> is the text
  \<open>constructor\<close>, the read \<open>PLAN_LIMITS.subscription[org.subscription_tier]\<close> yields the
  inherited \<open>Object\<close> function, which is truthy, so that the fallback to the growth limits
  is not taken: \<open>getPlanLimits\<close> and \<open>getOrgLimits\<close> return that function and no set of
  limits, and \<open>checkLimit\<close> then finds no limit under any key and allows 1000 + 1 projects.
\<close>

theorem getPlanLimits_inherited_member:
  "getPlanLimits (Some constructor_org) = Some (Inherited ''constructor'') \<and>
   getOrgLimits (Some constructor_org) = Some (Inherited ''constructor'') \<and>
   getPlanLimits (Some growth_org) = map_option Limits (subscription PLAN_LIMITS ''growth'') \<and>
   Some (Inherited ''constructor'') \<noteq> map_option Limits (subscription PLAN_LIMITS ''growth'') \<and>
   checkLimit (Some constructor_org) (map_of [(''projects'', Some 1000)]) ''projects'' (Some 1) =
     Inr \<lparr>allowed = True, warning = None, message = None, upgradeRequired = None,
          current = Some 1001, limit = None\<rparr>"
proof -
  have own: "subscription PLAN_LIMITS ''constructor'' = None"
    by (rule inherited_not_own) (simp add: Object_prototype_names_def)
  have inh: "''constructor'' \<in> set Object_prototype_names"
    by (simp add: Object_prototype_names_def)
  have plan: "getPlanLimits (Some constructor_org) = Some (Inherited ''constructor'')"
    using own inh
    by (simp add: getPlanLimits_def js_or_def subscription_entry_def constructor_org_fields)
  have org: "getOrgLimits (Some constructor_org) = Some (Inherited ''constructor'')"
    by (simp add: getOrgLimits_override constructor_org_fields plan)
  obtain l where l: "subscription PLAN_LIMITS ''growth'' = Some l"
    using subscription_keys [of "''growth''"] by auto
  have growth: "getPlanLimits (Some growth_org) =
      map_option Limits (subscription PLAN_LIMITS ''growth'')"
    using l
    by (simp add: getPlanLimits_def js_or_def subscription_entry_def growth_org_def)
  have ne: "Some (Inherited ''constructor'') \<noteq>
      map_option Limits (subscription PLAN_LIMITS ''growth'')"
    using l by simp
  have chk: "checkLimit (Some constructor_org) (map_of [(''projects'', Some 1000)])
        ''projects'' (Some 1) =
      Inr \<lparr>allowed = True, warning = None, message = None, upgradeRequired = None,
           current = Some 1001, limit = None\<rparr>"
    by (simp add: checkLimit_def org limit_of_def usage_or_zero_def ToNumber_def js_gt_def
        js_ge_def js_lt_def getUsagePercent_def)
  show ?thesis
    by (intro conjI plan org growth ne chk)
qed

section \<open>Limit resolution: the AppSumo tiers and the override\<close>

lemma spread_lookup:
  "spread (Some (Limits base)) ov = (\<lambda>k. case ov k of Some v \<Rightarrow> Some v | None \<Rightarrow> base k)"
  by (rule ext) (simp add: spread_def map_add_def split: option.splits)

lemma getPlanLimits_ref_deref:
  "singleton h = PLAN_LIMITS \<Longrightarrow> deref h (getPlanLimits_ref h org) = getPlanLimits org"
  by (auto simp: deref_def getPlanLimits_ref_def getPlanLimits_def js_or_def appsumo_entry_def
      subscription_entry_def split: option.splits)

lemma deref_fresh:
  "deref (h\<lparr>allocated := allocated h @ [x]\<rparr>) (Allocated (length (allocated h))) =
     Some (Limits x)"
  by (simp add: deref_def)

lemma getOrgLimits_ref_deref:
  assumes "singleton h = PLAN_LIMITS"
  shows "deref (snd (getOrgLimits_ref h org)) (fst (getOrgLimits_ref h org)) = getOrgLimits org"
proof (cases org)
  case None
  then show ?thesis
    using assms by (simp add: getOrgLimits_ref_def getOrgLimits_def deref_def)
next
  case (Some r)
  show ?thesis
  proof (cases "plan_limits_override r")
    case None
    then show ?thesis
      using Some getPlanLimits_ref_deref [OF assms, of org]
      by (simp add: getOrgLimits_ref_def getOrgLimits_def)
  next
    case (Some ov)
    then show ?thesis
      using \<open>org = Some r\<close> getPlanLimits_ref_deref [OF assms, of org]
      by (simp add: getOrgLimits_ref_def getOrgLimits_def deref_fresh)
  qed
qed

lemma getOrgLimits_ref_frame:
  "singleton (snd (getOrgLimits_ref h org)) = singleton h \<and>
   take (length (allocated h)) (allocated (snd (getOrgLimits_ref h org))) = allocated h"
  by (simp add: getOrgLimits_ref_def split: option.splits)

text \<open>
  Claim C8. For an organization on an AppSumo plan with tier 1, 2 or 3, \<open>getOrgLimits\<close>
  returns the catalogue's entry of that tier, and with an override the entry with every
  key of the override replaced by the override's value and every other key as in the entry.
  Over the object store: the result without an override is the catalogue object itself,
  the result with one is a newly allocated object, and the call leaves the \<open>PLAN_LIMITS\<close>
  singleton and every object allocated before as they were.
\<close>

theorem getOrgLimits_appsumo_override:
  assumes "plan_type r = ''appsumo_lifetime''" and "appsumo_tier r = Some t"
    and "t = 1 \<or> t = 2 \<or> t = 3" and "singleton h = PLAN_LIMITS"
  shows "\<exists>base. appsumo PLAN_LIMITS t = Some base \<and>
     getPlanLimits (Some r) = Some (Limits base) \<and>
     getOrgLimits (Some r) =
       Some (Limits (case plan_limits_override r of
               None \<Rightarrow> base
             | Some ov \<Rightarrow> (\<lambda>k. case ov k of Some v \<Rightarrow> Some v | None \<Rightarrow> base k))) \<and>
     deref (snd (getOrgLimits_ref h (Some r))) (fst (getOrgLimits_ref h (Some r))) =
       getOrgLimits (Some r) \<and>
     fst (getOrgLimits_ref h (Some r)) =
       (case plan_limits_override r of
          None \<Rightarrow> Catalog_appsumo t
        | Some ov \<Rightarrow> Allocated (length (allocated h))) \<and>
     singleton (snd (getOrgLimits_ref h (Some r))) = PLAN_LIMITS \<and>
     take (length (allocated h)) (allocated (snd (getOrgLimits_ref h (Some r)))) = allocated h"
proof -
  obtain base where base: "appsumo PLAN_LIMITS t = Some base"
    using assms(3) appsumo_keys [of t] by auto
  have plan: "getPlanLimits (Some r) = Some (Limits base)"
    using assms(1,2) base by (simp add: getPlanLimits_def js_or_def appsumo_entry_def)
  have org: "getOrgLimits (Some r) =
       Some (Limits (case plan_limits_override r of
               None \<Rightarrow> base
             | Some ov \<Rightarrow> (\<lambda>k. case ov k of Some v \<Rightarrow> Some v | None \<Rightarrow> base k)))"
    by (simp add: getOrgLimits_override plan spread_lookup split: option.splits)
  have ref: "getPlanLimits_ref h (Some r) = Catalog_appsumo t"
    using assms(1,2,4) base by (simp add: getPlanLimits_ref_def)
  have fst: "fst (getOrgLimits_ref h (Some r)) =
       (case plan_limits_override r of
          None \<Rightarrow> Catalog_appsumo t
        | Some ov \<Rightarrow> Allocated (length (allocated h)))"
    by (simp add: getOrgLimits_ref_def ref split: option.splits)
  show ?thesis
    using base plan org fst getOrgLimits_ref_deref [OF assms(4), of "Some r"]
      getOrgLimits_ref_frame [of h "Some r"] assms(4)
    by simp
qed

theorem getOrgLimits_appsumo_override_witness:
  "plan_type tier2_org = ''appsumo_lifetime'' \<and> appsumo_tier tier2_org = Some 2 \<and>
   (\<exists>limits. getOrgLimits (Some tier2_org) = Some (Limits limits) \<and>
      limits ''projects'' = Some (JNum 50) \<and> limits ''customers'' = Some (JNum 5000) \<and>
      limits ''automations'' = Some (JNum 30)) \<and>
   fst (getOrgLimits_ref \<lparr>singleton = PLAN_LIMITS, allocated = []\<rparr> (Some tier2_org)) =
     Allocated 0 \<and>
   singleton (snd (getOrgLimits_ref \<lparr>singleton = PLAN_LIMITS, allocated = []\<rparr>
     (Some tier2_org))) = PLAN_LIMITS"
proof -
  have h1: "plan_type tier2_org = ''appsumo_lifetime''"
    and h2: "appsumo_tier tier2_org = Some 2"
    and ov: "plan_limits_override tier2_org = Some (map_of [(''projects'', JNum 50)])"
    by (simp_all add: tier2_org_def)
  have h3: "(2::int) = 1 \<or> (2::int) = 2 \<or> (2::int) = 3"
    by simp
  have h4: "singleton \<lparr>singleton = PLAN_LIMITS, allocated = []\<rparr> = PLAN_LIMITS"
    by simp
  have base: "appsumo PLAN_LIMITS 2 = Some b \<Longrightarrow>
      b ''customers'' = Some (JNum 5000) \<and> b ''automations'' = Some (JNum 30)" for b
    by (auto simp: PLAN_LIMITS_def)
  show ?thesis
    using getOrgLimits_appsumo_override [OF h1 h2 h3 h4] base
    by (auto simp: h1 h2 ov)
qed

section \<open>The quota check\<close>

lemma Math_round_percent:
  assumes "l \<noteq> 0"
  shows "Math_round ((of_int u / of_int l) * 100) = (200 * u + l) div (2 * l)"
proof -
  have "(of_int u / of_int l) * 100 + 1 / 2 = (of_int (200 * u + l) :: rat) / of_int (2 * l)"
    using assms by (simp add: field_simps)
  then show ?thesis
    unfolding Math_round_def by (simp only: floor_divide_of_int_eq)
qed

lemma percent_of_div:
  "L \<noteq> 0 \<Longrightarrow> percent_of u L = (200 * u + L) div (2 * L)"
  using Math_round_percent [of L u] by (simp add: percent_of_def)

lemma getUsagePercent_num:
  "L \<noteq> - 1 \<Longrightarrow> getUsagePercent u (Some (JNum L)) = Finite (of_int (percent_of u L))"
  by (simp add: getUsagePercent_def percent_of_def ToNumber_def)

lemma js_gt_int: "js_gt a (Finite (of_int b)) \<longleftrightarrow> a > b"
  by (simp add: js_gt_def)

lemma js_ge_int: "js_ge (Finite (of_int a)) k \<longleftrightarrow> a \<ge> k"
  by (simp add: js_ge_def)

lemma js_lt_int: "js_lt (Finite (of_int a)) k \<longleftrightarrow> a < k"
  by (simp add: js_lt_def)

lemma getLimitMessage_num: "\<exists>m. getLimitMessage k (Some (JNum L)) p = Inr m"
  by (simp add: getLimitMessage_def formatLimit_def Let_def)

lemma free_org_limits: "getOrgLimits (Some free_org) = Some (Limits (free PLAN_LIMITS))"
  by (simp add: getOrgLimits_def getPlanLimits_def free_org_def)


lemma free_projects: "free PLAN_LIMITS ''projects'' = Some (JNum 1)"
  by (simp add: PLAN_LIMITS_def)

lemma checkLimit_num:
  assumes "getOrgLimits (Some r) = Some (Limits limits)"
    and "limits limitType = Some (JNum L)" and "L \<noteq> - 1"
    and "getLimitMessage limitType (Some (JNum L)) (plan_type r) = Inr m"
  shows "checkLimit (Some r) usage limitType increment_arg =
     (let currentUsage = usage_or_zero usage limitType;
          newUsage = currentUsage + (case increment_arg of None \<Rightarrow> 1 | Some i \<Rightarrow> i) in
      if newUsage > L then
        Inr \<lparr>allowed = False, warning = None, message = Some m, upgradeRequired = Some True,
             current = Some currentUsage, limit = Some (JNum L)\<rparr>
      else if 80 \<le> percent_of newUsage L \<and> percent_of newUsage L < 100 then
        Inr \<lparr>allowed = True, warning = Some True,
             message = Some (Proximity (Finite (of_int (percent_of newUsage L)))
                               (formatLimitName limitType)),
             upgradeRequired = None, current = Some newUsage, limit = Some (JNum L)\<rparr>
      else
        Inr \<lparr>allowed = True, warning = None, message = None, upgradeRequired = None,
             current = Some newUsage, limit = Some (JNum L)\<rparr>)"
proof -
  have n: "ToNumber (Some (JNum L)) = Finite (of_int L)"
    by (simp add: ToNumber_def)
  show ?thesis
    using assms
    by (simp add: checkLimit_def limit_of_def Let_def n js_gt_int js_ge_int js_lt_int
        getUsagePercent_num)
qed







text \<open>
  Claim C10. A snapshot that has no entry for the key, or has \<open>null\<close> or 0 there, counts
  as a usage of 0, and the decision is the one for \<open>projected = 0 + increment\<close>: under a
  numeric limit \<open>L\<close> other than -1, \<open>checkLimit\<close> returns a result that allows exactly
  when the increment does not exceed \<open>L\<close>; an allowing result carries the increment as
  \<open>current\<close> and the warning exactly when the increment's percentage of \<open>L\<close> is at least 80
  and below 100; a denying result carries \<open>current = 0\<close>. Under any limit the answer is the
  one for the snapshot that holds 0 for the key, and on the free plan an empty snapshot
  allows one more project.
\<close>

theorem checkLimit_missing_usage:
  assumes "usage limitType = None \<or> usage limitType = Some None \<or> usage limitType = Some (Some 0)"
    and "getOrgLimits (Some r) = Some (Limits limits)"
    and "limits limitType = Some (JNum L)" and "L \<noteq> - 1"
  shows "(\<exists>res. checkLimit (Some r) usage limitType increment_arg = Inr res \<and>
        (allowed res \<longleftrightarrow> \<not> (0 + (case increment_arg of None \<Rightarrow> 1 | Some i \<Rightarrow> i)) > L) \<and>
        (allowed res \<longrightarrow>
           current res = Some (0 + (case increment_arg of None \<Rightarrow> 1 | Some i \<Rightarrow> i)) \<and>
           (warning res = Some True \<longleftrightarrow>
              80 \<le> percent_of (0 + (case increment_arg of None \<Rightarrow> 1 | Some i \<Rightarrow> i)) L \<and>
              percent_of (0 + (case increment_arg of None \<Rightarrow> 1 | Some i \<Rightarrow> i)) L < 100)) \<and>
        (\<not> allowed res \<longrightarrow> current res = Some 0 \<and> upgradeRequired res = Some True) \<and>
        limit res = Some (JNum L)) \<and>
     usage_or_zero usage limitType = 0 \<and>
     checkLimit org usage limitType increment_arg =
       checkLimit org (Map.empty(limitType \<mapsto> Some 0)) limitType increment_arg \<and>
     checkLimit (Some free_org) Map.empty ''projects'' (Some 1) =
       Inr \<lparr>allowed = True, warning = None, message = None, upgradeRequired = None,
            current = Some 1, limit = Some (JNum 1)\<rparr>"
proof (intro conjI)
  show z: "usage_or_zero usage limitType = 0"
    using assms(1) by (auto simp: usage_or_zero_def)
  have z': "usage_or_zero (Map.empty(limitType \<mapsto> Some 0)) limitType = 0"
    by (simp add: usage_or_zero_def)
  show "checkLimit org usage limitType increment_arg =
       checkLimit org (Map.empty(limitType \<mapsto> Some 0)) limitType increment_arg"
    unfolding checkLimit_def z z' by (rule refl)
  obtain m where m: "getLimitMessage limitType (Some (JNum L)) (plan_type r) = Inr m"
    using getLimitMessage_num by blast
  show "\<exists>res. checkLimit (Some r) usage limitType increment_arg = Inr res \<and>
        (allowed res \<longleftrightarrow> \<not> (0 + (case increment_arg of None \<Rightarrow> 1 | Some i \<Rightarrow> i)) > L) \<and>
        (allowed res \<longrightarrow>
           current res = Some (0 + (case increment_arg of None \<Rightarrow> 1 | Some i \<Rightarrow> i)) \<and>
           (warning res = Some True \<longleftrightarrow>
              80 \<le> percent_of (0 + (case increment_arg of None \<Rightarrow> 1 | Some i \<Rightarrow> i)) L \<and>
              percent_of (0 + (case increment_arg of None \<Rightarrow> 1 | Some i \<Rightarrow> i)) L < 100)) \<and>
        (\<not> allowed res \<longrightarrow> current res = Some 0 \<and> upgradeRequired res = Some True) \<and>
        limit res = Some (JNum L)"
    unfolding checkLimit_num [OF assms(2,3,4) m] z by (simp add: Let_def)
  obtain m1 where m1: "getLimitMessage ''projects'' (Some (JNum 1)) (plan_type free_org) = Inr m1"
    using getLimitMessage_num by blast
  have h3: "(1::int) \<noteq> - 1"
    by simp
  show "checkLimit (Some free_org) Map.empty ''projects'' (Some 1) =
       Inr \<lparr>allowed = True, warning = None, message = None, upgradeRequired = None,
            current = Some 1, limit = Some (JNum 1)\<rparr>"
    unfolding checkLimit_num [OF free_org_limits free_projects h3 m1]
    by (simp add: usage_or_zero_def percent_of_div)
qed

theorem checkLimit_missing_usage_witness:
  "Map.empty ''projects'' = (None :: int option option) \<and>
   getOrgLimits (Some free_org) = Some (Limits (free PLAN_LIMITS)) \<and>
   free PLAN_LIMITS ''projects'' = Some (JNum 1) \<and>
   (\<exists>res. checkLimit (Some free_org) Map.empty ''projects'' None = Inr res \<and>
      allowed res \<and> current res = Some 1 \<and> warning res \<noteq> Some True \<and>
      limit res = Some (JNum 1)) \<and>
   (\<exists>res. checkLimit (Some free_org) Map.empty ''projects'' (Some 2) = Inr res \<and>
      \<not> allowed res \<and> current res = Some 0)"
proof -
  have h1: "Map.empty ''projects'' = (None :: int option option) \<or>
      Map.empty ''projects'' = Some None \<or> Map.empty ''projects'' = Some (Some (0::int))"
    by simp
  have h4: "(1::int) \<noteq> - 1"
    by simp
  note t = checkLimit_missing_usage [OF h1 free_org_limits free_projects h4]
  have one: "\<exists>res. checkLimit (Some free_org) Map.empty ''projects'' None = Inr res \<and>
      allowed res \<and> current res = Some 1 \<and> warning res \<noteq> Some True \<and>
      limit res = Some (JNum 1)"
    using conjunct1 [OF t [where increment_arg = None and org = None]]
    by (auto simp: percent_of_div)
  have two: "\<exists>res. checkLimit (Some free_org) Map.empty ''projects'' (Some 2) = Inr res \<and>
      \<not> allowed res \<and> current res = Some 0"
    using conjunct1 [OF t [where increment_arg = "Some 2" and org = None]]
    by auto
  show ?thesis
    using one two by (simp add: free_org_limits free_projects)
qed

section \<open>Code redemption\<close>

lemma find_Some_mem: "find P xs = Some x \<Longrightarrow> x \<in> set xs \<and> P x"
  by (induction xs) (auto split: if_splits)

lemma find_append_eq:
  "find P (xs @ ys) = (case find P xs of None \<Rightarrow> find P ys | Some x \<Rightarrow> Some x)"
  by (induction xs) auto

lemma map_update_where:
  assumes "\<And>x. g (upd x) = g x"
  shows "map g (map (\<lambda>x. if P x then upd x else x) xs) = map g xs"
  using assms by (induction xs) auto

lemma set_map_update_where:
  assumes "y \<in> set (map (\<lambda>x. if P x then upd x else x) xs)"
  shows "(\<exists>x \<in> set xs. P x \<and> y = upd x) \<or> (y \<in> set xs \<and> \<not> P y)"
  using assms by (induction xs) (auto split: if_splits)

lemma redeem_found:
  assumes "find (\<lambda>c. code c = k) (tbl_appsumo_codes s) = Some c" and "\<not> is_redeemed c"
    and "find (\<lambda>r. oid r = org_id) (tbl_organizations s) = Some r"
    and "\<forall>t. appsumo_tier r = Some t \<longrightarrow>
           - 2147483648 \<le> t + tier c \<and> t + tier c \<le> 2147483647"
  shows "redeem_appsumo_code s now org_id k =
     Inr ([(''success'', JBool True),
           (''tier'', JNum (stacked_tier (appsumo_tier r) (tier c))),
           (''message'',
            JStr (''Code redeemed successfully! Your plan has been upgraded to Tier ''
                  @ text_of_int (stacked_tier (appsumo_tier r) (tier c))))],
          s\<lparr>tbl_appsumo_codes :=
               map (\<lambda>x. if cid x = cid c
                         then x\<lparr>is_redeemed := True, redeemed_by_org_id := Some org_id,
                                redeemed_at := Some now\<rparr>
                         else x)
                 (tbl_appsumo_codes s),
             tbl_organizations :=
               map (\<lambda>x. if oid x = org_id
                         then x\<lparr>plan_type := ''appsumo_lifetime'',
                                appsumo_tier := Some (stacked_tier (appsumo_tier r) (tier c)),
                                appsumo_codes :=
                                  Some (case_option [] (\<lambda>cs. cs) (appsumo_codes r) @ [k]),
                                plan_changed_at := Some now\<rparr>
                         else x)
                 (tbl_organizations s)\<rparr>)"
  using assms
  by (cases "appsumo_tier r")
     (simp_all add: redeem_appsumo_code_def Let_def int4_add_def stacked_tier_def)

lemma redeem_cases:
  assumes "redeem_appsumo_code s now org_id k = Inr (res, s')"
    and "map_of res ''success'' = Some (JBool True)"
  obtains c r where "find (\<lambda>c. code c = k) (tbl_appsumo_codes s) = Some c"
    and "\<not> is_redeemed c"
    and "find (\<lambda>r. oid r = org_id) (tbl_organizations s) = Some r"
    and "\<forall>t. appsumo_tier r = Some t \<longrightarrow>
           - 2147483648 \<le> t + tier c \<and> t + tier c \<le> 2147483647"
  using assms
  by (auto simp: redeem_appsumo_code_def Let_def int4_add_def
      split: option.splits if_splits sum.splits)

lemma sample_orgs:
  "oid free_org = ''org-1''" "oid growth_org = ''org-2''"
  "oid tier1_org = ''org-3''" "oid tier2_org = ''org-4''"
  "appsumo_tier free_org = None" "appsumo_tier growth_org = None"
  "appsumo_tier tier1_org = Some 1" "appsumo_tier tier2_org = Some 2"
  by (simp_all add: free_org_def growth_org_def tier1_org_def tier2_org_def)

lemma sample_find_org:
  "find (\<lambda>r. oid r = ''org-1'') (tbl_organizations sample_store) = Some free_org"
  "find (\<lambda>r. oid r = ''org-2'') (tbl_organizations sample_store) = Some growth_org"
  "find (\<lambda>r. oid r = ''org-3'') (tbl_organizations sample_store) = Some tier1_org"
  "find (\<lambda>r. oid r = ''org-4'') (tbl_organizations sample_store) = Some tier2_org"
  by (simp_all add: sample_store_def sample_orgs)

lemma sample_find_code:
  "find (\<lambda>c. code c = ''AUTOMATA-TEST-T1-001'') (tbl_appsumo_codes sample_store) =
     Some (sample_codes ! 0)"
  "find (\<lambda>c. code c = ''AUTOMATA-TEST-T1-002'') (tbl_appsumo_codes sample_store) =
     Some (sample_codes ! 1)"
  "find (\<lambda>c. code c = ''AUTOMATA-TEST-T2-001'') (tbl_appsumo_codes sample_store) =
     Some (sample_codes ! 2)"
  "find (\<lambda>c. code c = ''AUTOMATA-TEST-T2-002'') (tbl_appsumo_codes sample_store) =
     Some (sample_codes ! 3)"
  "find (\<lambda>c. code c = ''NO-SUCH-CODE'') (tbl_appsumo_codes sample_store) = None"
  by (simp_all add: sample_store_def sample_codes_def)

lemma sample_code_fields:
  "\<not> is_redeemed (sample_codes ! 0)" "tier (sample_codes ! 0) = 1"
  "is_redeemed (sample_codes ! 1)" "tier (sample_codes ! 1) = 1"
  "\<not> is_redeemed (sample_codes ! 2)" "tier (sample_codes ! 2) = 2"
  "is_redeemed (sample_codes ! 3)" "tier (sample_codes ! 3) = 2"
  by (simp_all add: sample_codes_def)

text \<open>
  Claim C1. Redeeming an existing, unredeemed code for an existing organization succeeds
  (the sum staying in the INTEGER range); the tier it returns and stores is the code's tier
  when the organization's tier is null, and otherwise the sum of both capped at 3.
\<close>

theorem redeem_stacks_tiers:
  assumes "find (\<lambda>c. code c = k) (tbl_appsumo_codes s) = Some c" and "\<not> is_redeemed c"
    and "find (\<lambda>r. oid r = org_id) (tbl_organizations s) = Some r"
    and "\<forall>t. appsumo_tier r = Some t \<longrightarrow>
           - 2147483648 \<le> t + tier c \<and> t + tier c \<le> 2147483647"
  shows "\<exists>res s'. redeem_appsumo_code s now org_id k = Inr (res, s') \<and>
      map_of res ''success'' = Some (JBool True) \<and>
      map_of res ''tier'' =
        Some (JNum (case appsumo_tier r of
                      None \<Rightarrow> tier c
                    | Some t \<Rightarrow> min (t + tier c) 3)) \<and>
      org_id \<in> set (map oid (tbl_organizations s')) \<and>
      (\<forall>r' \<in> set (tbl_organizations s'). oid r' = org_id \<longrightarrow>
         appsumo_tier r' =
           Some (case appsumo_tier r of None \<Rightarrow> tier c | Some t \<Rightarrow> min (t + tier c) 3))"
proof -
  let ?upd = "\<lambda>x. x\<lparr>plan_type := ''appsumo_lifetime'',
                       appsumo_tier := Some (stacked_tier (appsumo_tier r) (tier c)),
                       appsumo_codes := Some (case_option [] (\<lambda>cs. cs) (appsumo_codes r) @ [k]),
                       plan_changed_at := Some now\<rparr>"
  let ?orgs = "map (\<lambda>x. if oid x = org_id then ?upd x else x) (tbl_organizations s)"
  have "r \<in> set (tbl_organizations s)" and "oid r = org_id"
    using assms(3) find_Some_mem [of "\<lambda>r. oid r = org_id"] by blast+
  then have "org_id \<in> set (map oid (tbl_organizations s))"
    by auto
  moreover have "map oid ?orgs = map oid (tbl_organizations s)"
    by (rule map_update_where) simp
  ultimately have mem: "org_id \<in> set (map oid ?orgs)"
    by simp
  have tiers: "\<forall>r' \<in> set ?orgs. oid r' = org_id \<longrightarrow>
         appsumo_tier r' = Some (stacked_tier (appsumo_tier r) (tier c))"
  proof (intro ballI impI)
    fix r'
    assume a: "r' \<in> set ?orgs" and b: "oid r' = org_id"
    from set_map_update_where [OF a] b
    show "appsumo_tier r' = Some (stacked_tier (appsumo_tier r) (tier c))"
      by (elim disjE bexE conjE) simp_all
  qed
  define s' where "s' = s\<lparr>tbl_appsumo_codes :=
                 map (\<lambda>x. if cid x = cid c
                           then x\<lparr>is_redeemed := True, redeemed_by_org_id := Some org_id,
                                  redeemed_at := Some now\<rparr>
                           else x)
                   (tbl_appsumo_codes s),
               tbl_organizations := ?orgs\<rparr>"
  define res where "res = [(''success'', JBool True),
             (''tier'', JNum (stacked_tier (appsumo_tier r) (tier c))),
             (''message'',
              JStr (''Code redeemed successfully! Your plan has been upgraded to Tier ''
                    @ text_of_int (stacked_tier (appsumo_tier r) (tier c))))]"
  have run: "redeem_appsumo_code s now org_id k = Inr (res, s')"
    unfolding s'_def res_def by (rule redeem_found [OF assms])
  have orgs: "tbl_organizations s' = ?orgs"
    by (simp add: s'_def)
  have "map_of res ''success'' = Some (JBool True)"
    and "map_of res ''tier'' = Some (JNum (stacked_tier (appsumo_tier r) (tier c)))"
    by (simp_all add: res_def)
  then have "\<exists>res s'. redeem_appsumo_code s now org_id k = Inr (res, s') \<and>
      map_of res ''success'' = Some (JBool True) \<and>
      map_of res ''tier'' = Some (JNum (stacked_tier (appsumo_tier r) (tier c))) \<and>
      org_id \<in> set (map oid (tbl_organizations s')) \<and>
      (\<forall>r' \<in> set (tbl_organizations s'). oid r' = org_id \<longrightarrow>
         appsumo_tier r' = Some (stacked_tier (appsumo_tier r) (tier c)))"
    using run mem tiers unfolding orgs [symmetric] by blast
  then show ?thesis
    unfolding stacked_tier_def .
qed

theorem redeem_stacks_tiers_witness:
  "(\<exists>res s'. redeem_appsumo_code sample_store 9 ''org-3'' ''AUTOMATA-TEST-T2-001'' = Inr (res, s')
      \<and> map_of res ''success'' = Some (JBool True)
      \<and> map_of res ''tier'' = Some (JNum 3)
      \<and> ''org-3'' \<in> set (map oid (tbl_organizations s'))
      \<and> (\<forall>r' \<in> set (tbl_organizations s'). oid r' = ''org-3'' \<longrightarrow> appsumo_tier r' = Some 3)) \<and>
   (\<exists>res s'. redeem_appsumo_code sample_store 9 ''org-4'' ''AUTOMATA-TEST-T2-001'' = Inr (res, s')
      \<and> map_of res ''success'' = Some (JBool True)
      \<and> map_of res ''tier'' = Some (JNum 3)
      \<and> ''org-4'' \<in> set (map oid (tbl_organizations s'))
      \<and> (\<forall>r' \<in> set (tbl_organizations s'). oid r' = ''org-4'' \<longrightarrow> appsumo_tier r' = Some 3)) \<and>
   (\<exists>res s'. redeem_appsumo_code sample_store 9 ''org-1'' ''AUTOMATA-TEST-T1-001'' = Inr (res, s')
      \<and> map_of res ''success'' = Some (JBool True)
      \<and> map_of res ''tier'' = Some (JNum 1)
      \<and> ''org-1'' \<in> set (map oid (tbl_organizations s'))
      \<and> (\<forall>r' \<in> set (tbl_organizations s'). oid r' = ''org-1'' \<longrightarrow> appsumo_tier r' = Some 1))"
proof -
  have r1: "\<forall>t. appsumo_tier tier1_org = Some t \<longrightarrow>
      - 2147483648 \<le> t + tier (sample_codes ! 2) \<and> t + tier (sample_codes ! 2) \<le> 2147483647"
    and r2: "\<forall>t. appsumo_tier tier2_org = Some t \<longrightarrow>
      - 2147483648 \<le> t + tier (sample_codes ! 2) \<and> t + tier (sample_codes ! 2) \<le> 2147483647"
    and r3: "\<forall>t. appsumo_tier free_org = Some t \<longrightarrow>
      - 2147483648 \<le> t + tier (sample_codes ! 0) \<and> t + tier (sample_codes ! 0) \<le> 2147483647"
    by (simp_all add: sample_orgs sample_code_fields)
  show ?thesis
    using redeem_stacks_tiers [OF sample_find_code(3) sample_code_fields(5) sample_find_org(3) r1,
        of 9]
      redeem_stacks_tiers [OF sample_find_code(3) sample_code_fields(5) sample_find_org(4) r2,
        of 9]
      redeem_stacks_tiers [OF sample_find_code(1) sample_code_fields(1) sample_find_org(1) r3,
        of 9]
    by (simp add: sample_orgs sample_code_fields)
qed

text \<open>
  Claim C5. A code string that no row has is answered with the "Invalid code" failure, a
  code whose row is already redeemed with the "Code already redeemed" failure, and in both
  cases the store that comes back is the store that went in.
\<close>

theorem redeem_failure_unchanged:
  "(find (\<lambda>c. code c = k) (tbl_appsumo_codes s) = None \<longrightarrow>
      redeem_appsumo_code s now org_id k =
        Inr ([(''success'', JBool False), (''error'', JStr ''Invalid code'')], s)) \<and>
   (\<forall>c. find (\<lambda>c. code c = k) (tbl_appsumo_codes s) = Some c \<and> is_redeemed c \<longrightarrow>
      redeem_appsumo_code s now org_id k =
        Inr ([(''success'', JBool False), (''error'', JStr ''Code already redeemed'')], s))"
  by (simp add: redeem_appsumo_code_def)

theorem redeem_failure_unchanged_witness:
  "find (\<lambda>c. code c = ''NO-SUCH-CODE'') (tbl_appsumo_codes sample_store) = None \<and>
   redeem_appsumo_code sample_store 9 ''org-1'' ''NO-SUCH-CODE'' =
     Inr ([(''success'', JBool False), (''error'', JStr ''Invalid code'')], sample_store) \<and>
   find (\<lambda>c. code c = ''AUTOMATA-TEST-T1-002'') (tbl_appsumo_codes sample_store) =
     Some (sample_codes ! 1) \<and>
   is_redeemed (sample_codes ! 1) \<and>
   redeem_appsumo_code sample_store 9 ''org-1'' ''AUTOMATA-TEST-T1-002'' =
     Inr ([(''success'', JBool False), (''error'', JStr ''Code already redeemed'')],
          sample_store)"
  using redeem_failure_unchanged [of "''NO-SUCH-CODE''" sample_store 9 "''org-1''"]
    redeem_failure_unchanged [of "''AUTOMATA-TEST-T1-002''" sample_store 9 "''org-1''"]
    sample_code_fields(3)
  by (simp add: sample_find_code)

section \<open>The organization state across the operations\<close>

lemma get_current_usage_frame:
  assumes "get_current_usage s today now org_id = Inr (u, s1)"
  shows "tbl_organizations s1 = tbl_organizations s \<and> tbl_appsumo_codes s1 = tbl_appsumo_codes s"
  using assms
  by (auto simp: get_current_usage_def Let_def split: option.splits if_splits)

lemma increment_usage_frame:
  assumes "increment_usage s today now org_id usage_type amount = Inr (b, s1)"
  shows "tbl_organizations s1 = tbl_organizations s \<and> tbl_appsumo_codes s1 = tbl_appsumo_codes s"
proof -
  obtain u s0 where g: "get_current_usage s today now org_id = Inr (u, s0)"
    using assms by (auto simp: increment_usage_def Let_def split: sum.splits)
  have "tbl_organizations s1 = tbl_organizations s0 \<and> tbl_appsumo_codes s1 = tbl_appsumo_codes s0"
    using assms g
    by (auto simp: increment_usage_def Let_def split: sum.splits if_splits)
  then show ?thesis
    using get_current_usage_frame [OF g] by simp
qed

text \<open>
  Claim C3 as stated fails: \<open>growth_org\<close> satisfies the invariant; after it redeems the
  first sample code its row is \<open>growth_org_redeemed\<close>, which has both tiers non-null.
\<close>

theorem redeem_breaks_plan_invariant_counterexample:
  "plan_invariant growth_org \<and>
   map_sum id fst (redeem_appsumo_code sample_store 9 ''org-2'' ''AUTOMATA-TEST-T1-001'') =
     Inr [(''success'', JBool True), (''tier'', JNum 1),
          (''message'',
           JStr ''Code redeemed successfully! Your plan has been upgraded to Tier 1'')] \<and>
   map_sum id (tbl_organizations \<circ> snd)
       (redeem_appsumo_code sample_store 9 ''org-2'' ''AUTOMATA-TEST-T1-001'') =
     Inr [free_org, growth_org_redeemed, tier1_org, tier2_org] \<and>
   subscription_tier growth_org_redeemed = Some ''growth'' \<and>
   appsumo_tier growth_org_redeemed = Some 1 \<and>
   \<not> plan_invariant growth_org_redeemed"
proof -
  have rg: "\<forall>t. appsumo_tier growth_org = Some t \<longrightarrow>
      - 2147483648 \<le> t + tier (sample_codes ! 0) \<and> t + tier (sample_codes ! 0) \<le> 2147483647"
    by (simp add: sample_orgs)
  have codes: "appsumo_codes growth_org = Some []"
    by (simp add: growth_org_def)
  have orgs: "tbl_organizations sample_store = [free_org, growth_org, tier1_org, tier2_org]"
    by (simp add: sample_store_def)
  have one: "text_of_int 1 = ''1''"
    by (simp add: text_of_int_def digits.simps)
  have inv: "plan_invariant growth_org"
    and sub: "subscription_tier growth_org_redeemed = Some ''growth''"
    and app: "appsumo_tier growth_org_redeemed = Some 1"
    and ninv: "\<not> plan_invariant growth_org_redeemed"
    by (simp_all add: plan_invariant_def growth_org_def growth_org_redeemed_def)
  have run: "map_sum id fst
        (redeem_appsumo_code sample_store 9 ''org-2'' ''AUTOMATA-TEST-T1-001'') =
      Inr [(''success'', JBool True), (''tier'', JNum 1),
           (''message'',
            JStr ''Code redeemed successfully! Your plan has been upgraded to Tier 1'')]"
    unfolding redeem_found [OF sample_find_code(1) sample_code_fields(1) sample_find_org(2) rg]
    by (simp add: sample_orgs sample_code_fields stacked_tier_def one)
  have post: "map_sum id (tbl_organizations \<circ> snd)
        (redeem_appsumo_code sample_store 9 ''org-2'' ''AUTOMATA-TEST-T1-001'') =
      Inr [free_org, growth_org_redeemed, tier1_org, tier2_org]"
    unfolding redeem_found [OF sample_find_code(1) sample_code_fields(1) sample_find_org(2) rg]
    by (simp add: orgs sample_orgs sample_code_fields stacked_tier_def codes
        growth_org_redeemed_def)
  show ?thesis
    using inv run post sub app ninv by (intro conjI)
qed

text \<open>
  Claim C3, as the code has it. A successful redeem keeps every organization row in its
  place with its \<open>id\<close> and its \<open>subscription_tier\<close>; the rows of the redeeming
  organization, of which there is one, get \<open>plan_type = appsumo_lifetime\<close> and a non-null
  \<open>appsumo_tier\<close>; every other row is unchanged. Reading or incrementing the usage and
  checking a code leave the organization rows as they are.
\<close>

theorem redeem_org_state:
  assumes "redeem_appsumo_code s now org_id k = Inr (res, s')"
    and "map_of res ''success'' = Some (JBool True)"
  shows "map oid (tbl_organizations s') = map oid (tbl_organizations s) \<and>
     map subscription_tier (tbl_organizations s') = map subscription_tier (tbl_organizations s) \<and>
     org_id \<in> set (map oid (tbl_organizations s')) \<and>
     (\<forall>r' \<in> set (tbl_organizations s').
        if oid r' = org_id then plan_type r' = ''appsumo_lifetime'' \<and> appsumo_tier r' \<noteq> None
        else r' \<in> set (tbl_organizations s)) \<and>
     (\<forall>u s1. get_current_usage s today now org_id = Inr (u, s1) \<longrightarrow>
        tbl_organizations s1 = tbl_organizations s) \<and>
     (\<forall>b s1. increment_usage s today now org_id usage_type amount = Inr (b, s1) \<longrightarrow>
        tbl_organizations s1 = tbl_organizations s) \<and>
     tbl_organizations (snd (check_appsumo_code s k)) = tbl_organizations s"
proof -
  obtain c r where c: "find (\<lambda>c. code c = k) (tbl_appsumo_codes s) = Some c"
    and nr: "\<not> is_redeemed c"
    and r: "find (\<lambda>r. oid r = org_id) (tbl_organizations s) = Some r"
    and rg: "\<forall>t. appsumo_tier r = Some t \<longrightarrow>
           - 2147483648 \<le> t + tier c \<and> t + tier c \<le> 2147483647"
    using redeem_cases [OF assms] by blast
  let ?upd = "\<lambda>x. x\<lparr>plan_type := ''appsumo_lifetime'',
                       appsumo_tier := Some (stacked_tier (appsumo_tier r) (tier c)),
                       appsumo_codes := Some (case_option [] (\<lambda>cs. cs) (appsumo_codes r) @ [k]),
                       plan_changed_at := Some now\<rparr>"
  have s': "tbl_organizations s' =
      map (\<lambda>x. if oid x = org_id then ?upd x else x) (tbl_organizations s)"
    using assms(1) unfolding redeem_found [OF c nr r rg] by auto
  have ids: "map oid (tbl_organizations s') = map oid (tbl_organizations s)"
    unfolding s' by (rule map_update_where) simp
  have subs: "map subscription_tier (tbl_organizations s') =
      map subscription_tier (tbl_organizations s)"
    unfolding s' by (rule map_update_where) simp
  have "r \<in> set (tbl_organizations s)" and "oid r = org_id"
    using r find_Some_mem [of "\<lambda>r. oid r = org_id"] by blast+
  then have "org_id \<in> set (map oid (tbl_organizations s))"
    by auto
  then have mem: "org_id \<in> set (map oid (tbl_organizations s'))"
    using ids by simp
  have rows: "\<forall>r' \<in> set (tbl_organizations s').
        if oid r' = org_id then plan_type r' = ''appsumo_lifetime'' \<and> appsumo_tier r' \<noteq> None
        else r' \<in> set (tbl_organizations s)"
  proof (intro ballI)
    fix r'
    assume "r' \<in> set (tbl_organizations s')"
    then have a: "r' \<in> set (map (\<lambda>x. if oid x = org_id then ?upd x else x) (tbl_organizations s))"
      by (simp only: s')
    from set_map_update_where [OF a]
    show "if oid r' = org_id then plan_type r' = ''appsumo_lifetime'' \<and> appsumo_tier r' \<noteq> None
        else r' \<in> set (tbl_organizations s)"
      by (elim disjE bexE conjE) simp_all
  qed
  have usage: "\<forall>u s1. get_current_usage s today now org_id = Inr (u, s1) \<longrightarrow>
        tbl_organizations s1 = tbl_organizations s"
    by (intro allI impI) (rule conjunct1 [OF get_current_usage_frame])
  have incr: "\<forall>b s1. increment_usage s today now org_id usage_type amount = Inr (b, s1) \<longrightarrow>
        tbl_organizations s1 = tbl_organizations s"
    by (intro allI impI) (rule conjunct1 [OF increment_usage_frame])
  have chk: "tbl_organizations (snd (check_appsumo_code s k)) = tbl_organizations s"
    by (simp add: check_appsumo_code_def split: option.splits)
  show ?thesis
    by (intro conjI ids subs mem rows usage incr chk)
qed

theorem redeem_org_state_witness:
  "\<exists>res s'. redeem_appsumo_code sample_store 9 ''org-2'' ''AUTOMATA-TEST-T1-001'' = Inr (res, s')
      \<and> map_of res ''success'' = Some (JBool True)
      \<and> map subscription_tier (tbl_organizations s') = [None, Some ''growth'', None, None]
      \<and> (\<forall>r' \<in> set (tbl_organizations s').
            if oid r' = ''org-2''
            then plan_type r' = ''appsumo_lifetime'' \<and> appsumo_tier r' \<noteq> None
            else r' \<in> set (tbl_organizations sample_store))"
proof -
  have rg: "\<forall>t. appsumo_tier growth_org = Some t \<longrightarrow>
      - 2147483648 \<le> t + tier (sample_codes ! 0) \<and> t + tier (sample_codes ! 0) \<le> 2147483647"
    by (simp add: sample_orgs)
  obtain res s' where
    run: "redeem_appsumo_code sample_store 9 ''org-2'' ''AUTOMATA-TEST-T1-001'' = Inr (res, s')"
    and ok: "map_of res ''success'' = Some (JBool True)"
    using redeem_found [OF sample_find_code(1) sample_code_fields(1) sample_find_org(2) rg, of 9]
    by simp
  note st = redeem_org_state [OF run ok]
  have "map subscription_tier (tbl_organizations sample_store) =
      [None, Some ''growth'', None, None]"
    by (simp add: sample_store_def free_org_def growth_org_def tier1_org_def tier2_org_def)
  then have subs: "map subscription_tier (tbl_organizations s') =
      [None, Some ''growth'', None, None]"
    using st by (simp only:)
  have rows: "\<forall>r' \<in> set (tbl_organizations s').
            if oid r' = ''org-2''
            then plan_type r' = ''appsumo_lifetime'' \<and> appsumo_tier r' \<noteq> None
            else r' \<in> set (tbl_organizations sample_store)"
    by (rule conjunct1 [OF conjunct2 [OF conjunct2 [OF conjunct2 [OF st]]]])
  show ?thesis
    using run ok subs rows by (intro exI conjI)
qed

section \<open>Checking a code\<close>

text \<open>
  Claim C6 as stated fails: a code that does not exist and a code that is redeemed get the
  same \<open>valid\<close> and the same (absent) \<open>tier\<close>, and still different answers, by the
  \<open>error\<close> text.
\<close>

theorem check_appsumo_code_error_counterexample:
  "check_appsumo_code sample_store ''NO-SUCH-CODE'' =
     ([(''valid'', JBool False), (''error'', JStr ''Code not found'')], sample_store) \<and>
   check_appsumo_code sample_store ''AUTOMATA-TEST-T1-002'' =
     ([(''valid'', JBool False), (''error'', JStr ''Code already redeemed'')], sample_store) \<and>
   ''NO-SUCH-CODE'' \<notin> set (map code (tbl_appsumo_codes sample_store)) \<and>
   ''AUTOMATA-TEST-T1-002'' \<in> set (map code (tbl_appsumo_codes sample_store)) \<and>
   map_of (fst (check_appsumo_code sample_store ''NO-SUCH-CODE'')) ''valid'' =
     map_of (fst (check_appsumo_code sample_store ''AUTOMATA-TEST-T1-002'')) ''valid'' \<and>
   map_of (fst (check_appsumo_code sample_store ''NO-SUCH-CODE'')) ''tier'' =
     map_of (fst (check_appsumo_code sample_store ''AUTOMATA-TEST-T1-002'')) ''tier'' \<and>
   map_of (fst (check_appsumo_code sample_store ''NO-SUCH-CODE'')) ''error'' \<noteq>
     map_of (fst (check_appsumo_code sample_store ''AUTOMATA-TEST-T1-002'')) ''error''"
proof -
  have codes: "map code (tbl_appsumo_codes sample_store) =
      [''AUTOMATA-TEST-T1-001'', ''AUTOMATA-TEST-T1-002'', ''AUTOMATA-TEST-T2-001'',
       ''AUTOMATA-TEST-T2-002'', ''AUTOMATA-TEST-T3-001'', ''AUTOMATA-TEST-T3-002'']"
    by (simp add: sample_store_def sample_codes_def)
  show ?thesis
    unfolding codes using sample_code_fields(3)
    by (simp add: check_appsumo_code_def sample_find_code)
qed

text \<open>
  Claim C6, as the code has it. \<open>check_appsumo_code\<close> returns the store it was given. Its
  answer has no key besides \<open>valid\<close>, \<open>tier\<close> and \<open>error\<close>, and depends on nothing but
  whether the code exists, whether it is redeemed and, when it is not, its tier: two lookups
  that agree on these get the same answer. The \<open>error\<close> text tells a code that does not
  exist from a redeemed one.
\<close>

theorem check_appsumo_code_reads_only:
  "snd (check_appsumo_code s k) = s \<and>
   set (map fst (fst (check_appsumo_code s k))) \<subseteq> {''valid'', ''tier'', ''error''} \<and>
   (map_option (\<lambda>c. if is_redeemed c then None else Some (tier c))
        (find (\<lambda>c. code c = k) (tbl_appsumo_codes s)) =
    map_option (\<lambda>c. if is_redeemed c then None else Some (tier c))
        (find (\<lambda>c. code c = k') (tbl_appsumo_codes s')) \<longrightarrow>
    fst (check_appsumo_code s k) = fst (check_appsumo_code s' k')) \<and>
   fst (check_appsumo_code s k) =
     (case find (\<lambda>c. code c = k) (tbl_appsumo_codes s) of
        None \<Rightarrow> [(''valid'', JBool False), (''error'', JStr ''Code not found'')]
      | Some c \<Rightarrow>
          if is_redeemed c
          then [(''valid'', JBool False), (''error'', JStr ''Code already redeemed'')]
          else [(''valid'', JBool True), (''tier'', JNum (tier c))])"
proof (intro conjI impI)
  show "snd (check_appsumo_code s k) = s"
    by (simp add: check_appsumo_code_def split: option.splits)
  show "set (map fst (fst (check_appsumo_code s k))) \<subseteq> {''valid'', ''tier'', ''error''}"
    by (simp add: check_appsumo_code_def split: option.splits)
  show "fst (check_appsumo_code s k) = fst (check_appsumo_code s' k')"
    if "map_option (\<lambda>c. if is_redeemed c then None else Some (tier c))
          (find (\<lambda>c. code c = k) (tbl_appsumo_codes s)) =
        map_option (\<lambda>c. if is_redeemed c then None else Some (tier c))
          (find (\<lambda>c. code c = k') (tbl_appsumo_codes s'))"
    using that
    by (cases "find (\<lambda>c. code c = k) (tbl_appsumo_codes s)";
        cases "find (\<lambda>c. code c = k') (tbl_appsumo_codes s')")
       (simp_all add: check_appsumo_code_def split: if_splits)
  show "fst (check_appsumo_code s k) =
     (case find (\<lambda>c. code c = k) (tbl_appsumo_codes s) of
        None \<Rightarrow> [(''valid'', JBool False), (''error'', JStr ''Code not found'')]
      | Some c \<Rightarrow>
          if is_redeemed c
          then [(''valid'', JBool False), (''error'', JStr ''Code already redeemed'')]
          else [(''valid'', JBool True), (''tier'', JNum (tier c))])"
    by (simp add: check_appsumo_code_def split: option.splits)
qed

theorem check_appsumo_code_reads_only_witness:
  "map_option (\<lambda>c. if is_redeemed c then None else Some (tier c))
        (find (\<lambda>c. code c = ''AUTOMATA-TEST-T1-002'') (tbl_appsumo_codes sample_store)) =
    map_option (\<lambda>c. if is_redeemed c then None else Some (tier c))
        (find (\<lambda>c. code c = ''AUTOMATA-TEST-T2-002'') (tbl_appsumo_codes sample_store)) \<and>
   fst (check_appsumo_code sample_store ''AUTOMATA-TEST-T1-002'') =
     fst (check_appsumo_code sample_store ''AUTOMATA-TEST-T2-002'') \<and>
   snd (check_appsumo_code sample_store ''AUTOMATA-TEST-T1-002'') = sample_store"
  using check_appsumo_code_reads_only [of sample_store "''AUTOMATA-TEST-T1-002''"
      "''AUTOMATA-TEST-T2-002''" sample_store] sample_code_fields(3) sample_code_fields(7)
  by (simp add: sample_find_code)

section \<open>Incrementing a counter of no known kind\<close>

text \<open>
  Claim C9. For an organization that exists and a counter kind other than \<open>emails\<close>,
  \<open>sms\<close> and \<open>ai_analyses\<close>, \<open>increment_usage\<close> raises nothing and returns true; it
  does what \<open>get_current_usage\<close> does and no more: the row of the current period is the
  same before and after, so are all its counters, every row that was in the table stays as
  it was, and the one row that the call can add is the current period's with all counters 0.
\<close>

theorem increment_usage_unknown_kind:
  assumes "usage_type \<noteq> ''emails''" and "usage_type \<noteq> ''sms''"
    and "usage_type \<noteq> ''ai_analyses''"
    and "org_id \<in> set (map oid (tbl_organizations s))"
  shows "\<exists>u s1. get_current_usage s today now org_id = Inr (u, s1) \<and>
      increment_usage s today now org_id usage_type amount = Inr (True, s1) \<and>
      get_current_usage s1 today now org_id = Inr (u, s1) \<and>
      tbl_organizations s1 = tbl_organizations s \<and>
      tbl_appsumo_codes s1 = tbl_appsumo_codes s \<and>
      (tbl_usage_tracking s1 = tbl_usage_tracking s \<or>
       tbl_usage_tracking s1 = tbl_usage_tracking s @ [u] \<and>
       emails_sent u = 0 \<and> sms_sent u = 0 \<and> ai_analyses_used u = 0)"
proof -
  let ?p = "\<lambda>u. organization_id u = org_id \<and> period_start u = month_start today"
  show ?thesis
  proof (cases "find ?p (tbl_usage_tracking s)")
    case None
    define u where "u = \<lparr>organization_id = org_id, period_start = month_start today,
        period_end = month_end today, emails_sent = 0, sms_sent = 0, ai_analyses_used = 0,
        projects_count = 0, automations_count = 0, customers_count = 0,
        created_at = now, updated_at = now\<rparr>"
    define s1 where "s1 = s\<lparr>tbl_usage_tracking := tbl_usage_tracking s @ [u]\<rparr>"
    have g: "get_current_usage s today now org_id = Inr (u, s1)"
      using None assms(4) by (simp add: get_current_usage_def Let_def u_def s1_def)
    have "find ?p (tbl_usage_tracking s1) = Some u"
      using None by (simp add: s1_def find_append_eq u_def)
    then have g1: "get_current_usage s1 today now org_id = Inr (u, s1)"
      by (simp add: get_current_usage_def Let_def)
    have i: "increment_usage s today now org_id usage_type amount = Inr (True, s1)"
      using assms(1-3) g by (simp add: increment_usage_def Let_def)
    have "tbl_organizations s1 = tbl_organizations s"
      and "tbl_appsumo_codes s1 = tbl_appsumo_codes s"
      and "tbl_usage_tracking s1 = tbl_usage_tracking s @ [u]"
      and "emails_sent u = 0" and "sms_sent u = 0" and "ai_analyses_used u = 0"
      by (simp_all add: s1_def u_def)
    with g g1 i show ?thesis
      by blast
  next
    case (Some u)
    then have g: "get_current_usage s today now org_id = Inr (u, s)"
      by (simp add: get_current_usage_def Let_def)
    have i: "increment_usage s today now org_id usage_type amount = Inr (True, s)"
      using assms(1-3) g by (simp add: increment_usage_def Let_def)
    from g i show ?thesis
      by blast
  qed
qed

theorem increment_usage_unknown_kind_witness:
  "''push'' \<noteq> ''emails'' \<and> ''push'' \<noteq> ''sms'' \<and> ''push'' \<noteq> ''ai_analyses'' \<and>
   ''org-1'' \<in> set (map oid (tbl_organizations sample_store)) \<and>
   increment_usage sample_store \<lparr>year = 2026, month = 2, day = 14\<rparr> 100 ''org-1'' ''push'' 5 =
     Inr (True,
          sample_store\<lparr>tbl_usage_tracking :=
            [\<lparr>organization_id = ''org-1'',
              period_start = \<lparr>year = 2026, month = 2, day = 1\<rparr>,
              period_end = \<lparr>year = 2026, month = 2, day = 28\<rparr>,
              emails_sent = 0, sms_sent = 0, ai_analyses_used = 0, projects_count = 0,
              automations_count = 0, customers_count = 0, created_at = 100,
              updated_at = 100\<rparr>]\<rparr>)"
proof -
  have h1: "''push'' \<noteq> ''emails''" and h2: "''push'' \<noteq> ''sms''"
    and h3: "''push'' \<noteq> ''ai_analyses''"
    by simp_all
  have h4: "''org-1'' \<in> set (map oid (tbl_organizations sample_store))"
    by (simp add: sample_store_def sample_orgs)
  have g: "get_current_usage sample_store \<lparr>year = 2026, month = 2, day = 14\<rparr> 100 ''org-1'' =
     Inr (\<lparr>organization_id = ''org-1'',
              period_start = \<lparr>year = 2026, month = 2, day = 1\<rparr>,
              period_end = \<lparr>year = 2026, month = 2, day = 28\<rparr>,
              emails_sent = 0, sms_sent = 0, ai_analyses_used = 0, projects_count = 0,
              automations_count = 0, customers_count = 0, created_at = 100,
              updated_at = 100\<rparr>,
          sample_store\<lparr>tbl_usage_tracking :=
            [\<lparr>organization_id = ''org-1'',
              period_start = \<lparr>year = 2026, month = 2, day = 1\<rparr>,
              period_end = \<lparr>year = 2026, month = 2, day = 28\<rparr>,
              emails_sent = 0, sms_sent = 0, ai_analyses_used = 0, projects_count = 0,
              automations_count = 0, customers_count = 0, created_at = 100,
              updated_at = 100\<rparr>]\<rparr>)"
    using h4
    by (simp add: get_current_usage_def Let_def month_start_def month_end_def
        days_in_month_def is_leap_year_def sample_store_def)
  show ?thesis
    using increment_usage_unknown_kind [OF h1 h2 h3 h4,
        of "\<lparr>year = 2026, month = 2, day = 14\<rparr>" 100 5] g h4
    by auto
qed

end
